theory Spec2Isabelle
  imports Main "HOL-Library.Multiset" "HOL-Library.Sublist" "HOL-Library.AList" "HOL-Library.Word"
begin

section \<open>Data model (shared/schema.ts)\<close>

text \<open>
  The values a request can carry: what \<^verbatim>\<open>JSON.parse\<close> yields for a JSON body, and what
  multer's field parser yields for the text fields of a multipart body (a string, an array
  for a repeated field, an object for a bracketed field name).
\<close>

datatype jsval =
    JUndefined
  | JNull
  | JBool bool
  | JNumber int
  | JString string
  | JArray "jsval list"
  | JObject "(string \<times> jsval) list"

text \<open>
  \<^verbatim>\<open>InsertMessage\<close> is the picked insert schema of the \<^verbatim>\<open>messages\<close> table and
  \<^verbatim>\<open>Message\<close> the selected row: the same columns plus \<^verbatim>\<open>id\<close> and \<^verbatim>\<open>timestamp\<close>.
  \<^verbatim>\<open>imageUrl\<close> and \<^verbatim>\<open>messageType\<close> are optional and nullable (\<open>None\<close> stands for both
  \<^verbatim>\<open>null\<close> and \<^verbatim>\<open>undefined\<close>). The types declare \<^verbatim>\<open>content\<close> and \<^verbatim>\<open>sessionId\<close> as
  strings, but the store is a plain \<^verbatim>\<open>Map\<close> and the upload route passes multipart fields
  to it unchecked, so at run time the two hold whatever value the request carried: they
  are JavaScript values here, \<open>JString\<close> wherever a schema has checked them. A timestamp
  is a \<^verbatim>\<open>Date\<close>, read through \<^verbatim>\<open>getTime()\<close> as the number of milliseconds since the epoch.
\<close>

record InsertMessage =
  content :: jsval
  role :: string
  sessionId :: jsval
  imageUrl :: "string option"
  messageType :: "string option"

record Message = InsertMessage +
  id' :: string
  timestamp :: int

record User =
  user_id :: string
  username :: string
  password :: string

section \<open>The message store (server/storage.ts)\<close>

subsection \<open>JavaScript \<^verbatim>\<open>Map\<close> and \<^verbatim>\<open>Array\<close> operations\<close>

text \<open>
  A JavaScript \<^verbatim>\<open>Map\<close> iterates in insertion order, so it is an association list.
  \<^verbatim>\<open>set\<close> on a key already present replaces the value at the key's position; on a new
  key it appends. \<^verbatim>\<open>delete\<close> removes the key.
\<close>

type_synonym ('k, 'v) jsmap = "('k \<times> 'v) list"

definition map_set :: "'k \<Rightarrow> 'v \<Rightarrow> ('k, 'v) jsmap \<Rightarrow> ('k, 'v) jsmap" where
  "map_set k v m = AList.update k v m"

definition map_delete :: "'k \<Rightarrow> ('k, 'v) jsmap \<Rightarrow> ('k, 'v) jsmap" where
  "map_delete k m = AList.delete k m"

definition map_values :: "('k, 'v) jsmap \<Rightarrow> 'v list" where
  "map_values m = map snd m"

definition map_entries :: "('k, 'v) jsmap \<Rightarrow> ('k \<times> 'v) list" where
  "map_entries m = m"

text \<open>
  \<^verbatim>\<open>Array.prototype.sort(cmp)\<close> is a stable sort (ECMAScript 2019): an element goes before
  another when \<^verbatim>\<open>cmp\<close> is negative, and elements that compare equal keep their order.
  Insertion from the right into the sorted rest is such a sort.
\<close>

fun sort_insert :: "('a \<Rightarrow> 'a \<Rightarrow> int) \<Rightarrow> 'a \<Rightarrow> 'a list \<Rightarrow> 'a list" where
  "sort_insert cmp x [] = [x]"
| "sort_insert cmp x (y # ys) =
     (if cmp x y \<le> 0 then x # y # ys else y # sort_insert cmp x ys)"

definition array_sort :: "('a \<Rightarrow> 'a \<Rightarrow> int) \<Rightarrow> 'a list \<Rightarrow> 'a list" where
  "array_sort cmp xs = foldr (sort_insert cmp) xs []"

subsection \<open>\<^verbatim>\<open>MemStorage\<close>\<close>

record MemStorage =
  users :: "(string, User) jsmap"
  messages :: "(string, Message) jsmap"

text \<open>The constructor: two empty maps.\<close>

definition new_MemStorage :: MemStorage where
  "new_MemStorage = \<lparr>users = [], messages = []\<rparr>"

text \<open>JavaScript's truthiness, and \<^verbatim>\<open>x || d\<close>, on request values.\<close>

definition js_truthy :: "jsval \<Rightarrow> bool" where
  "js_truthy v =
     (case v of
        JUndefined \<Rightarrow> False
      | JNull \<Rightarrow> False
      | JBool b \<Rightarrow> b
      | JNumber n \<Rightarrow> n \<noteq> 0
      | JString s \<Rightarrow> s \<noteq> []
      | JArray _ \<Rightarrow> True
      | JObject _ \<Rightarrow> True)"

definition js_or :: "jsval \<Rightarrow> jsval \<Rightarrow> jsval" where
  "js_or v d = (if js_truthy v then v else d)"

text \<open>JavaScript's \<^verbatim>\<open>x || d\<close> on \<^verbatim>\<open>string | null | undefined\<close>: the empty string is falsy too.\<close>

definition truthy :: "string option \<Rightarrow> bool" where
  "truthy v = (case v of None \<Rightarrow> False | Some s \<Rightarrow> s \<noteq> [])"

definition or_else :: "string option \<Rightarrow> string \<Rightarrow> string" where
  "or_else v d = (case v of None \<Rightarrow> d | Some s \<Rightarrow> if s = [] then d else s)"

definition or_null :: "string option \<Rightarrow> string option" where
  "or_null v = (if truthy v then v else None)"

text \<open>
  \<^verbatim>\<open>createMessage\<close> draws \<^verbatim>\<open>randomUUID()\<close> and \<^verbatim>\<open>new Date()\<close> from the environment: the two
  values are the parameters \<open>uuid\<close> and \<open>now\<close>. It returns the stored record and the store.
\<close>

definition createMessage ::
  "MemStorage \<Rightarrow> string \<Rightarrow> int \<Rightarrow> InsertMessage \<Rightarrow> Message \<times> MemStorage" where
  "createMessage st uuid now insertMessage =
     (let message = \<lparr>content = content insertMessage,
                     role = role insertMessage,
                     sessionId = sessionId insertMessage,
                     imageUrl = or_null (imageUrl insertMessage),
                     messageType = Some (or_else (messageType insertMessage) ''text''),
                     id' = uuid,
                     timestamp = now\<rparr>
      in (message, st\<lparr>messages := map_set uuid message (messages st)\<rparr>))"

definition by_timestamp :: "Message \<Rightarrow> Message \<Rightarrow> int" where
  "by_timestamp a b = timestamp a - timestamp b"

definition getMessagesBySessionId :: "MemStorage \<Rightarrow> string \<Rightarrow> Message list" where
  "getMessagesBySessionId st sid =
     array_sort by_timestamp
       (filter (\<lambda>message. sessionId message = JString sid) (map_values (messages st)))"

definition clearMessagesBySessionId :: "MemStorage \<Rightarrow> string \<Rightarrow> MemStorage" where
  "clearMessagesBySessionId st sid =
     (let messagesToDelete =
            map fst (filter (\<lambda>(_, message). sessionId message = JString sid)
                            (map_entries (messages st)))
      in st\<lparr>messages := foldl (\<lambda>m i. map_delete i m) (messages st) messagesToDelete\<rparr>)"

text \<open>The keys of a \<^verbatim>\<open>Map\<close> are pairwise distinct.\<close>

definition wf_store :: "MemStorage \<Rightarrow> bool" where
  "wf_store st = distinct (map fst (messages st))"

definition fresh :: "string \<Rightarrow> MemStorage \<Rightarrow> bool" where
  "fresh uuid st = (uuid \<notin> set (map fst (messages st)))"

section \<open>Environment: request bodies, file system, paths, the hosted model\<close>

subsection \<open>JSON request bodies and the zod schemas (server/routes.ts)\<close>

text \<open>Property lookup in a parsed JSON object: the last occurrence of a key wins.\<close>

definition get_prop :: "(string \<times> jsval) list \<Rightarrow> string \<Rightarrow> jsval" where
  "get_prop ps k = (case map_of (rev ps) k of None \<Rightarrow> JUndefined | Some v \<Rightarrow> v)"

datatype error = ZodError | Error string

text \<open>\<^verbatim>\<open>z.string().min(lo)\<close>, with \<^verbatim>\<open>.max(hi)\<close> when \<open>hi\<close> is given.\<close>

definition z_string :: "nat \<Rightarrow> nat option \<Rightarrow> jsval \<Rightarrow> string option" where
  "z_string lo hi v =
     (case v of
        JString s \<Rightarrow>
          if lo \<le> length s \<and> (case hi of None \<Rightarrow> True | Some h \<Rightarrow> length s \<le> h)
          then Some s else None
      | _ \<Rightarrow> None)"

text \<open>
  \<^verbatim>\<open>z.object({a: ..., sessionId: z.string().min(1)}).parse(body)\<close> for the two schemas of
  routes.ts, which differ in the name and the bound of the first field. \<^verbatim>\<open>parse\<close> throws a
  \<^verbatim>\<open>ZodError\<close> when the body is not an object or a field fails.
\<close>

definition z_object_parse :: "string \<Rightarrow> nat \<Rightarrow> jsval \<Rightarrow> error + (string \<times> string)" where
  "z_object_parse field hi body =
     (case body of
        JObject ps \<Rightarrow>
          (case (z_string 1 (Some hi) (get_prop ps field),
                 z_string 1 None (get_prop ps ''sessionId'')) of
             (Some a, Some sid) \<Rightarrow> Inr (a, sid)
           | _ \<Rightarrow> Inl ZodError)
      | _ \<Rightarrow> Inl ZodError)"

definition chatRequestSchema_parse :: "jsval \<Rightarrow> error + (string \<times> string)" where
  "chatRequestSchema_parse body = z_object_parse ''message'' 2000 body"

definition imageGenerationSchema_parse :: "jsval \<Rightarrow> error + (string \<times> string)" where
  "imageGenerationSchema_parse body = z_object_parse ''prompt'' 1000 body"

subsection \<open>The file system (\<^verbatim>\<open>fs\<close>)\<close>

type_synonym byte = "8 word"

datatype fsnode = File "byte list" | Directory

type_synonym filesystem = "string \<rightharpoonup> fsnode"

definition existsSync :: "filesystem \<Rightarrow> string \<Rightarrow> bool" where
  "existsSync fs p = (fs p \<noteq> None)"

definition readFileSync :: "filesystem \<Rightarrow> string \<Rightarrow> error + byte list" where
  "readFileSync fs p =
     (case fs p of
        None \<Rightarrow> Inl (Error ''ENOENT'')
      | Some Directory \<Rightarrow> Inl (Error ''EISDIR'')
      | Some (File bytes) \<Rightarrow> Inr bytes)"

text \<open>
  \<^verbatim>\<open>path.dirname\<close> (POSIX): the path up to the last slash that has a name after it;
  \<^verbatim>\<open>.\<close> when there is none, \<^verbatim>\<open>/\<close> for a name directly under the root.
\<close>

definition dirname :: "string \<Rightarrow> string" where
  "dirname p =
     (case p of
        [] \<Rightarrow> ''.''
      | c # cs \<Rightarrow>
          (let found = dropWhile (\<lambda>x. x \<noteq> CHR ''/'') (dropWhile (\<lambda>x. x = CHR ''/'') (rev cs))
           in if found = [] then (if c = CHR ''/'' then ''/'' else ''.'')
              else if c = CHR ''/'' \<and> length found = 1 then ''//''
              else take (length found) p))"

text \<open>
  Writing creates or replaces a file; it throws when the path is a directory, and when the
  directory that is to hold the file is missing or is a file. The working directory
  \<^verbatim>\<open>.\<close> and the root always exist.
\<close>

definition writeFileSync :: "filesystem \<Rightarrow> string \<Rightarrow> byte list \<Rightarrow> error + filesystem" where
  "writeFileSync fs p bytes =
     (case fs p of
        Some Directory \<Rightarrow> Inl (Error ''EISDIR'')
      | _ \<Rightarrow>
          (let dir = dirname p
           in if dir = ''.'' \<or> dir = ''/'' \<or> fs dir = Some Directory
              then Inr (fs(p \<mapsto> File bytes))
              else if fs dir = None then Inl (Error ''ENOENT'')
              else Inl (Error ''ENOTDIR'')))"

subsection \<open>Paths (\<^verbatim>\<open>path.join\<close>, \<^verbatim>\<open>path.resolve\<close> of Node, POSIX flavour)\<close>

fun split_on :: "char \<Rightarrow> string \<Rightarrow> string list" where
  "split_on c [] = [[]]"
| "split_on c (x # xs) =
     (if x = c then [] # split_on c xs
      else (case split_on c xs of
              [] \<Rightarrow> [[x]]
            | s # ss \<Rightarrow> (x # s) # ss))"

fun join_with :: "string \<Rightarrow> string list \<Rightarrow> string" where
  "join_with sep [] = []"
| "join_with sep [s] = s"
| "join_with sep (s # t # ss) = s @ sep @ join_with sep (t # ss)"

text \<open>
  Node's \<^verbatim>\<open>normalizeString\<close>, on the segments between slashes: empty segments and
  \<^verbatim>\<open>.\<close> are dropped, \<^verbatim>\<open>..\<close> removes the segment before it, and where there is none
  (or it is itself \<^verbatim>\<open>..\<close>) it is kept when the path is relative. \<open>res\<close> is the result so
  far, last segment first.
\<close>

fun normalizeString :: "bool \<Rightarrow> string list \<Rightarrow> string list \<Rightarrow> string list" where
  "normalizeString allowAboveRoot res [] = rev res"
| "normalizeString allowAboveRoot res (s # ss) =
     (if s = [] \<or> s = ''.'' then normalizeString allowAboveRoot res ss
      else if s = ''..'' then
        (case res of
           r # rs \<Rightarrow>
             if r \<noteq> ''..'' then normalizeString allowAboveRoot rs ss
             else if allowAboveRoot then normalizeString allowAboveRoot (''..'' # res) ss
             else normalizeString allowAboveRoot res ss
         | [] \<Rightarrow>
             if allowAboveRoot then normalizeString allowAboveRoot [''..''] ss
             else normalizeString allowAboveRoot res ss)
      else normalizeString allowAboveRoot (s # res) ss)"

definition isAbsolute :: "string \<Rightarrow> bool" where
  "isAbsolute p = (case p of [] \<Rightarrow> False | c # _ \<Rightarrow> c = CHR ''/'')"

definition path_normalize :: "string \<Rightarrow> string" where
  "path_normalize p =
     (if p = [] then ''.''
      else
        (let trailingSeparator = (last p = CHR ''/'');
             q = join_with ''/'' (normalizeString (\<not> isAbsolute p) [] (split_on CHR ''/'' p))
         in if q = [] then
              (if isAbsolute p then ''/'' else if trailingSeparator then ''./'' else ''.'')
            else (if isAbsolute p then ''/'' else []) @ q
                 @ (if trailingSeparator then ''/'' else [])))"

definition path_join :: "string list \<Rightarrow> string" where
  "path_join args =
     (let joined = join_with ''/'' (filter (\<lambda>a. a \<noteq> []) args)
      in if joined = [] then ''.'' else path_normalize joined)"

text \<open>\<^verbatim>\<open>path.resolve(p)\<close> in a process whose working directory is the absolute path \<open>cwd\<close>.\<close>

definition path_resolve :: "string \<Rightarrow> string \<Rightarrow> string" where
  "path_resolve cwd p =
     ''/'' @ join_with ''/''
       (normalizeString False []
          (split_on CHR ''/'' (if isAbsolute p then p else cwd @ ''/'' @ p)))"

subsection \<open>Numbers in template strings\<close>

definition digit :: "nat \<Rightarrow> char" where
  "digit n = ''0123456789'' ! (n mod 10)"

text \<open>The decimal digits of a natural number, most significant first.\<close>

function decimal_digits :: "nat \<Rightarrow> string" where
  "decimal_digits n = (if 10 \<le> n then decimal_digits (n div 10) else []) @ [digit n]"
  by pat_completeness auto
termination
  by (relation "measure (\<lambda>n. n)") auto

declare decimal_digits.simps [simp del]

text \<open>\<^verbatim>\<open>`${n}`\<close> for an integral number \<open>n\<close> such as \<^verbatim>\<open>Date.now()\<close>.\<close>

definition number_toString :: "int \<Rightarrow> string" where
  "number_toString i =
     (if 0 \<le> i then decimal_digits (nat i) else CHR ''-'' # decimal_digits (nat (- i)))"

subsection \<open>The hosted model (\<^verbatim>\<open>@google/genai\<close>)\<close>

text \<open>
  The request of \<^verbatim>\<open>ai.models.generateContent\<close>: the model name, the contents, and the
  response modalities of the configuration (empty when no configuration is passed).
  Contents are a string, a list of role-tagged entries, or a list of parts. The text of a
  part is the value the service was given.
\<close>

datatype part = TextPart jsval | InlineData string string

datatype Content = Content (content_role: string) (content_parts: "part list")

datatype contents =
    ContentsText string
  | ContentsList "Content list"
  | ContentsParts "part list"

record GenerateRequest =
  model :: string
  contents :: contents
  responseModalities :: "string list"

text \<open>The part of a response that the services read.\<close>

datatype blob = Blob (blob_data: "string option")

datatype rpart = RPart (inlineData: "blob option")

datatype rcontent = RContent (rcontent_parts: "rpart list option")

datatype candidate = Candidate (candidate_content: "rcontent option")

record GenerateResponse =
  response_text :: "string option"
  candidates :: "candidate list option"

text \<open>
  The collaborators that are not part of the repository are parameters: the hosted model
  (which returns a response or throws) and the base64 codec of \<^verbatim>\<open>Buffer\<close>.
\<close>

record env =
  generateContent :: "GenerateRequest \<Rightarrow> error + GenerateResponse"
  base64_encode :: "byte list \<Rightarrow> string"
  base64_decode :: "string \<Rightarrow> byte list"

section \<open>The model services (server/services/gemini.ts)\<close>

record ChatTurn =
  turn_role :: string
  turn_content :: jsval
  turn_imageUrl :: "string option"

text \<open>
  The function mapped over the history in \<^verbatim>\<open>generateChatResponseWithHistory\<close>. It throws
  when \<^verbatim>\<open>readFileSync\<close> does.
\<close>

definition external_role :: "ChatTurn \<Rightarrow> string" where
  "external_role msg = (if turn_role msg = ''assistant'' then ''model'' else ''user'')"

definition formatMessage :: "env \<Rightarrow> filesystem \<Rightarrow> ChatTurn \<Rightarrow> error + Content" where
  "formatMessage e fs msg =
     (let parts = [TextPart (turn_content msg)]
      in case turn_imageUrl msg of
           None \<Rightarrow> Inr (Content (external_role msg) parts)
         | Some url \<Rightarrow>
             if url \<noteq> [] \<and> existsSync fs url then
               (case readFileSync fs url of
                  Inl err \<Rightarrow> Inl err
                | Inr imageBytes \<Rightarrow>
                    Inr (Content (external_role msg)
                          (parts @ [InlineData (base64_encode e imageBytes) ''image/jpeg''])))
             else Inr (Content (external_role msg) parts))"

fun formatMessages :: "env \<Rightarrow> filesystem \<Rightarrow> ChatTurn list \<Rightarrow> error + Content list" where
  "formatMessages e fs [] = Inr []"
| "formatMessages e fs (msg # msgs) =
     (case formatMessage e fs msg of
        Inl err \<Rightarrow> Inl err
      | Inr c \<Rightarrow>
          (case formatMessages e fs msgs of
             Inl err \<Rightarrow> Inl err
           | Inr cs \<Rightarrow> Inr (c # cs)))"

definition generateChatResponseWithHistory ::
  "env \<Rightarrow> filesystem \<Rightarrow> ChatTurn list \<Rightarrow> error + string" where
  "generateChatResponseWithHistory e fs msgs =
     (case formatMessages e fs msgs of
        Inl _ \<Rightarrow> Inl (Error ''Failed to generate response from Gemini API'')
      | Inr formattedMessages \<Rightarrow>
          (case generateContent e \<lparr>model = ''gemini-2.5-flash'',
                                   contents = ContentsList formattedMessages,
                                   responseModalities = []\<rparr> of
             Inl _ \<Rightarrow> Inl (Error ''Failed to generate response from Gemini API'')
           | Inr response \<Rightarrow>
               Inr (or_else (response_text response)
                      ''I apologize, but I couldn't generate a response. Please try again.'')))"

definition analyzeImage :: "env \<Rightarrow> filesystem \<Rightarrow> string \<Rightarrow> jsval \<Rightarrow> error + string" where
  "analyzeImage e fs imagePath prompt =
     (case readFileSync fs imagePath of
        Inl _ \<Rightarrow> Inl (Error ''Failed to analyze image'')
      | Inr imageBytes \<Rightarrow>
          (case generateContent e
                  \<lparr>model = ''gemini-2.5-flash'',
                   contents = ContentsParts
                     [InlineData (base64_encode e imageBytes) ''image/jpeg'',
                      TextPart (js_or prompt (JString
                        ''Analyze this image in detail and describe its key elements, context, and any notable aspects.''))],
                   responseModalities = []\<rparr> of
             Inl _ \<Rightarrow> Inl (Error ''Failed to analyze image'')
           | Inr response \<Rightarrow>
               Inr (or_else (response_text response)
                      ''I couldn't analyze this image. Please try again.'')))"

text \<open>The loop of \<^verbatim>\<open>generateImage\<close>: the data of the first part that carries some.\<close>

fun first_inline_data :: "rpart list \<Rightarrow> string option" where
  "first_inline_data [] = None"
| "first_inline_data (p # ps) =
     (case inlineData p of
        None \<Rightarrow> first_inline_data ps
      | Some b \<Rightarrow> if truthy (blob_data b) then blob_data b else first_inline_data ps)"

definition generateImage :: "env \<Rightarrow> filesystem \<Rightarrow> string \<Rightarrow> string \<Rightarrow> error + filesystem" where
  "generateImage e fs prompt outputPath =
     (let failed = Inl (Error ''Failed to generate image'')
      in case generateContent e
                \<lparr>model = ''gemini-2.0-flash-preview-image-generation'',
                 contents = ContentsList [Content ''user'' [TextPart (JString prompt)]],
                 responseModalities = [''TEXT'', ''IMAGE'']\<rparr> of
           Inl _ \<Rightarrow> failed
         | Inr response \<Rightarrow>
             (case candidates response of
                None \<Rightarrow> failed
              | Some [] \<Rightarrow> failed
              | Some (c # _) \<Rightarrow>
                  (case candidate_content c of
                     None \<Rightarrow> failed
                   | Some ct \<Rightarrow>
                       (case rcontent_parts ct of
                          None \<Rightarrow> failed
                        | Some ps \<Rightarrow>
                            (case first_inline_data ps of
                               None \<Rightarrow> failed
                             | Some d \<Rightarrow>
                                 (case writeFileSync fs outputPath (base64_decode e d) of
                                    Inl _ \<Rightarrow> failed
                                  | Inr fs' \<Rightarrow> Inr fs'))))))"

section \<open>The request handlers (server/routes.ts)\<close>

text \<open>
  What a handler sends: \<^verbatim>\<open>res.json({userMessage, assistantMessage})\<close>, the message list
  of a session, \<^verbatim>\<open>res.status(n).json({message})\<close> with a fixed text or with the message of
  the error caught, or \<^verbatim>\<open>res.sendFile(path)\<close>.
\<close>

datatype response =
    JsonPair Message Message
  | JsonMessages "Message list"
  | Status nat string
  | StatusError nat error
  | SendFile string

text \<open>
  Each call of \<^verbatim>\<open>createMessage\<close> reads \<^verbatim>\<open>randomUUID()\<close> and the clock: a handler takes
  one pair \<open>(uuid, now)\<close> for each message it may create.
\<close>

type_synonym draw = "string \<times> int"

definition conversationHistory :: "MemStorage \<Rightarrow> string \<Rightarrow> ChatTurn list" where
  "conversationHistory st sid =
     map (\<lambda>msg. \<lparr>turn_role = role msg, turn_content = content msg,
                  turn_imageUrl = imageUrl msg\<rparr>)
         (getMessagesBySessionId st sid)"

definition chat_handler ::
  "env \<Rightarrow> filesystem \<Rightarrow> draw \<Rightarrow> draw \<Rightarrow> jsval \<Rightarrow> MemStorage \<Rightarrow> response \<times> MemStorage" where
  "chat_handler e fs d1 d2 body st =
     (case chatRequestSchema_parse body of
        Inl err \<Rightarrow> (StatusError 500 err, st)
      | Inr (message, sid) \<Rightarrow>
          (let (userMessage, st1) =
                 createMessage st (fst d1) (snd d1)
                   \<lparr>content = JString message, role = ''user'', sessionId = JString sid,
                    imageUrl = None, messageType = None\<rparr>
           in case generateChatResponseWithHistory e fs (conversationHistory st1 sid) of
                Inl err \<Rightarrow> (StatusError 500 err, st1)
              | Inr responseText \<Rightarrow>
                  (let (assistantMessage, st2) =
                         createMessage st1 (fst d2) (snd d2)
                           \<lparr>content = JString responseText, role = ''assistant'',
                            sessionId = JString sid,
                            imageUrl = None, messageType = None\<rparr>
                   in (JsonPair userMessage assistantMessage, st2))))"

definition get_chat_handler :: "MemStorage \<Rightarrow> string \<Rightarrow> response" where
  "get_chat_handler st sid = JsonMessages (getMessagesBySessionId st sid)"

definition delete_chat_handler :: "MemStorage \<Rightarrow> string \<Rightarrow> response \<times> MemStorage" where
  "delete_chat_handler st sid =
     (Status 200 ''Chat history cleared'', clearMessagesBySessionId st sid)"

text \<open>
  The multipart request after \<^verbatim>\<open>upload.single('image')\<close>: the stored file, if one was
  sent, and \<^verbatim>\<open>req.body\<close>, the object multer builds from the text fields.
\<close>

record UploadedFile =
  file_path :: string
  mimetype :: string
  file_size :: nat

record UploadRequest =
  req_file :: "UploadedFile option"
  req_body :: "(string \<times> jsval) list"

text \<open>
  The \<^verbatim>\<open>fileFilter\<close> and the size limit of the multer configuration. When the middleware
  fails, the handler does not run.
\<close>

definition allowedTypes :: "string list" where
  "allowedTypes = [''image/jpeg'', ''image/jpg'', ''image/png'', ''image/gif'', ''image/webp'']"

definition upload_single :: "UploadRequest \<Rightarrow> error + UploadRequest" where
  "upload_single req =
     (case req_file req of
        None \<Rightarrow> Inr req
      | Some f \<Rightarrow>
          if mimetype f \<notin> set allowedTypes then Inl (Error ''Only image files are allowed'')
          else if file_size f > 10 * 1024 * 1024 then Inl (Error ''File too large'')
          else Inr req)"

text \<open>\<^verbatim>\<open>const { sessionId, message = "" } = req.body\<close>: the default replaces \<^verbatim>\<open>undefined\<close> only.\<close>

definition body_sessionId :: "UploadRequest \<Rightarrow> jsval" where
  "body_sessionId req = get_prop (req_body req) ''sessionId''"

definition body_message :: "UploadRequest \<Rightarrow> jsval" where
  "body_message req =
     (case get_prop (req_body req) ''message'' of
        JUndefined \<Rightarrow> JString []
      | v \<Rightarrow> v)"

definition upload_image_handler ::
  "env \<Rightarrow> filesystem \<Rightarrow> draw \<Rightarrow> draw \<Rightarrow> UploadRequest \<Rightarrow> MemStorage \<Rightarrow> response \<times> MemStorage"
  where
  "upload_image_handler e fs d1 d2 req st =
     (case req_file req of
        None \<Rightarrow> (Status 400 ''No image file provided'', st)
      | Some f \<Rightarrow>
          (let sid = body_sessionId req;
               message = body_message req
           in if \<not> js_truthy sid then (Status 400 ''Session ID is required'', st)
              else
                (let imagePath = file_path f;
                     (userMessage, st1) =
                       createMessage st (fst d1) (snd d1)
                         \<lparr>content = js_or message
                                      (JString ''I've uploaded an image for you to analyze.''),
                          role = ''user'', sessionId = sid,
                          imageUrl = Some imagePath, messageType = Some ''image''\<rparr>
                 in case analyzeImage e fs imagePath (js_or message JUndefined) of
                      Inl err \<Rightarrow> (StatusError 500 err, st1)
                    | Inr analysisResult \<Rightarrow>
                        (let (assistantMessage, st2) =
                               createMessage st1 (fst d2) (snd d2)
                                 \<lparr>content = JString analysisResult, role = ''assistant'',
                                  sessionId = sid,
                                  imageUrl = None, messageType = Some ''text''\<rparr>
                         in (JsonPair userMessage assistantMessage, st2)))))"

definition upload_image_route ::
  "env \<Rightarrow> filesystem \<Rightarrow> draw \<Rightarrow> draw \<Rightarrow> UploadRequest \<Rightarrow> MemStorage \<Rightarrow> response \<times> MemStorage"
  where
  "upload_image_route e fs d1 d2 req st =
     (case upload_single req of
        Inl err \<Rightarrow> (StatusError 500 err, st)
      | Inr req' \<Rightarrow> upload_image_handler e fs d1 d2 req' st)"

text \<open>\<open>now\<close> is the value of \<^verbatim>\<open>Date.now()\<close> read for the file name.\<close>

definition imageFilename :: "int \<Rightarrow> string" where
  "imageFilename now = ''generated_'' @ number_toString now @ ''.jpg''"

definition generate_image_handler ::
  "env \<Rightarrow> filesystem \<Rightarrow> draw \<Rightarrow> int \<Rightarrow> draw \<Rightarrow> jsval \<Rightarrow> MemStorage
     \<Rightarrow> response \<times> MemStorage \<times> filesystem" where
  "generate_image_handler e fs d1 now d2 body st =
     (case imageGenerationSchema_parse body of
        Inl err \<Rightarrow> (StatusError 500 err, st, fs)
      | Inr (prompt, sid) \<Rightarrow>
          (let (userMessage, st1) =
                 createMessage st (fst d1) (snd d1)
                   \<lparr>content = JString (''Generate an image: '' @ prompt), role = ''user'',
                    sessionId = JString sid, imageUrl = None, messageType = Some ''text''\<rparr>;
               imagePath = path_join [''uploads'', imageFilename now]
           in case generateImage e fs prompt imagePath of
                Inl err \<Rightarrow> (StatusError 500 err, st1, fs)
              | Inr fs' \<Rightarrow>
                  (let (assistantMessage, st2) =
                         createMessage st1 (fst d2) (snd d2)
                           \<lparr>content = JString (''I've generated an image based on your prompt: ''
                                        @ [CHR 0x22] @ prompt @ [CHR 0x22]),
                            role = ''assistant'', sessionId = JString sid,
                            imageUrl = Some imagePath,
                            messageType = Some ''image_generation''\<rparr>
                   in (JsonPair userMessage assistantMessage, st2, fs'))))"

text \<open>
  \<^verbatim>\<open>GET /api/images/:filename\<close>. \<open>filename\<close> is \<^verbatim>\<open>req.params.filename\<close>: one segment of
  the request path, percent-decoded by the router, so it may hold any character.
\<close>

definition images_handler :: "string \<Rightarrow> filesystem \<Rightarrow> string \<Rightarrow> response" where
  "images_handler cwd fs filename =
     (let imagePath = path_join [''uploads'', filename]
      in if existsSync fs imagePath then SendFile (path_resolve cwd imagePath)
         else Status 404 ''Image not found'')"

text \<open>A resolved path lies in the directory \<open>dir\<close> of the working directory \<open>cwd\<close>.\<close>

definition within_dir :: "string \<Rightarrow> string \<Rightarrow> string \<Rightarrow> bool" where
  "within_dir cwd dir p = prefix (path_resolve cwd dir @ ''/'') p"

text \<open>
  What an invocation may leave in the store, for the identifiers \<open>u1\<close> and \<open>u2\<close> it draws:
  nothing new, the user message alone with a failure response, or the user message followed
  by the assistant message with both in the response.
\<close>

abbreviation (input) persisted_none_user_or_both ::
  "MemStorage \<Rightarrow> string \<Rightarrow> string \<Rightarrow> response \<Rightarrow> MemStorage \<Rightarrow> bool" where
  "persisted_none_user_or_both st u1 u2 r st' \<equiv>
     messages st' = messages st
     \<or> (\<exists>um err. messages st' = messages st @ [(u1, um)] \<and> role um = ''user''
            \<and> r = StatusError 500 err)
     \<or> (\<exists>um am. messages st' = messages st @ [(u1, um), (u2, am)] \<and> role um = ''user''
            \<and> role am = ''assistant'' \<and> r = JsonPair um am)"

text \<open>
  What each protocol does, case by case, for the pairs \<open>(u1, t1)\<close> and \<open>(u2, t2)\<close> it draws.
  A request rejected before persistence is answered with the store as it was. Otherwise the
  user message is created and appended; then a failure of the external call is answered with
  status 500 and that store, and a success with both messages and the store holding the user
  message followed by the assistant message.
\<close>

abbreviation (input) chat_outcomes ::
  "env \<Rightarrow> filesystem \<Rightarrow> string \<Rightarrow> int \<Rightarrow> string \<Rightarrow> int \<Rightarrow> jsval \<Rightarrow> MemStorage \<Rightarrow> bool" where
  "chat_outcomes e fs u1 t1 u2 t2 body st \<equiv>
     (\<forall>err. chatRequestSchema_parse body = Inl err \<longrightarrow>
        chat_handler e fs (u1, t1) (u2, t2) body st = (StatusError 500 err, st))
     \<and> (\<forall>message sid um st1.
          chatRequestSchema_parse body = Inr (message, sid)
          \<and> createMessage st u1 t1
                \<lparr>content = JString message, role = ''user'', sessionId = JString sid,
                 imageUrl = None, messageType = None\<rparr> = (um, st1) \<longrightarrow>
          messages st1 = messages st @ [(u1, um)] \<and> role um = ''user''
          \<and> (\<forall>err. generateChatResponseWithHistory e fs (conversationHistory st1 sid) = Inl err \<longrightarrow>
                chat_handler e fs (u1, t1) (u2, t2) body st = (StatusError 500 err, st1))
          \<and> (\<forall>responseText am st2.
                generateChatResponseWithHistory e fs (conversationHistory st1 sid) = Inr responseText
                \<and> createMessage st1 u2 t2
                      \<lparr>content = JString responseText, role = ''assistant'',
                       sessionId = JString sid, imageUrl = None, messageType = None\<rparr> = (am, st2) \<longrightarrow>
                chat_handler e fs (u1, t1) (u2, t2) body st = (JsonPair um am, st2)
                \<and> messages st2 = messages st @ [(u1, um), (u2, am)]
                \<and> role am = ''assistant''))"

abbreviation (input) upload_outcomes ::
  "env \<Rightarrow> filesystem \<Rightarrow> string \<Rightarrow> int \<Rightarrow> string \<Rightarrow> int \<Rightarrow> UploadRequest \<Rightarrow> MemStorage \<Rightarrow> bool"
  where
  "upload_outcomes e fs u1 t1 u2 t2 req st \<equiv>
     (\<forall>err. upload_single req = Inl err \<longrightarrow>
        upload_image_route e fs (u1, t1) (u2, t2) req st = (StatusError 500 err, st))
     \<and> (upload_single req = Inr req \<and> req_file req = None \<longrightarrow>
          upload_image_route e fs (u1, t1) (u2, t2) req st =
            (Status 400 ''No image file provided'', st))
     \<and> (\<forall>f. upload_single req = Inr req \<and> req_file req = Some f
              \<and> \<not> js_truthy (body_sessionId req) \<longrightarrow>
          upload_image_route e fs (u1, t1) (u2, t2) req st =
            (Status 400 ''Session ID is required'', st))
     \<and> (\<forall>f um st1.
          upload_single req = Inr req \<and> req_file req = Some f
          \<and> js_truthy (body_sessionId req)
          \<and> createMessage st u1 t1
                \<lparr>content = js_or (body_message req)
                             (JString ''I've uploaded an image for you to analyze.''),
                 role = ''user'', sessionId = body_sessionId req,
                 imageUrl = Some (file_path f), messageType = Some ''image''\<rparr> = (um, st1) \<longrightarrow>
          messages st1 = messages st @ [(u1, um)] \<and> role um = ''user''
          \<and> (\<forall>err. analyzeImage e fs (file_path f) (js_or (body_message req) JUndefined) = Inl err \<longrightarrow>
                upload_image_route e fs (u1, t1) (u2, t2) req st = (StatusError 500 err, st1))
          \<and> (\<forall>analysisResult am st2.
                analyzeImage e fs (file_path f) (js_or (body_message req) JUndefined)
                  = Inr analysisResult
                \<and> createMessage st1 u2 t2
                      \<lparr>content = JString analysisResult, role = ''assistant'',
                       sessionId = body_sessionId req,
                       imageUrl = None, messageType = Some ''text''\<rparr> = (am, st2) \<longrightarrow>
                upload_image_route e fs (u1, t1) (u2, t2) req st = (JsonPair um am, st2)
                \<and> messages st2 = messages st @ [(u1, um), (u2, am)]
                \<and> role am = ''assistant''))"

abbreviation (input) generate_outcomes ::
  "env \<Rightarrow> filesystem \<Rightarrow> string \<Rightarrow> int \<Rightarrow> int \<Rightarrow> string \<Rightarrow> int \<Rightarrow> jsval \<Rightarrow> MemStorage \<Rightarrow> bool"
  where
  "generate_outcomes e fs u1 t1 now u2 t2 body st \<equiv>
     (\<forall>err. imageGenerationSchema_parse body = Inl err \<longrightarrow>
        generate_image_handler e fs (u1, t1) now (u2, t2) body st = (StatusError 500 err, st, fs))
     \<and> (\<forall>prompt sid um st1.
          imageGenerationSchema_parse body = Inr (prompt, sid)
          \<and> createMessage st u1 t1
                \<lparr>content = JString (''Generate an image: '' @ prompt), role = ''user'',
                 sessionId = JString sid, imageUrl = None, messageType = Some ''text''\<rparr>
              = (um, st1) \<longrightarrow>
          messages st1 = messages st @ [(u1, um)] \<and> role um = ''user''
          \<and> (\<forall>err. generateImage e fs prompt (path_join [''uploads'', imageFilename now]) = Inl err \<longrightarrow>
                generate_image_handler e fs (u1, t1) now (u2, t2) body st
                  = (StatusError 500 err, st1, fs))
          \<and> (\<forall>fs' am st2.
                generateImage e fs prompt (path_join [''uploads'', imageFilename now]) = Inr fs'
                \<and> createMessage st1 u2 t2
                      \<lparr>content = JString (''I've generated an image based on your prompt: ''
                                           @ [CHR 0x22] @ prompt @ [CHR 0x22]),
                       role = ''assistant'', sessionId = JString sid,
                       imageUrl = Some (path_join [''uploads'', imageFilename now]),
                       messageType = Some ''image_generation''\<rparr> = (am, st2) \<longrightarrow>
                generate_image_handler e fs (u1, t1) now (u2, t2) body st
                  = (JsonPair um am, st2, fs')
                \<and> messages st2 = messages st @ [(u1, um), (u2, am)]
                \<and> role am = ''assistant''))"

section \<open>Example data\<close>

definition example_message :: "string \<Rightarrow> string \<Rightarrow> string \<Rightarrow> string \<Rightarrow> int \<Rightarrow> Message" where
  "example_message i r s c t =
     \<lparr>content = JString c, role = r, sessionId = JString s, imageUrl = None,
      messageType = Some ''text'', id' = i, timestamp = t\<rparr>"

definition example_store :: MemStorage where
  "example_store = \<lparr>users = [], messages =
     [(''a'', example_message ''a'' ''user'' ''s1'' ''one'' 5),
      (''b'', example_message ''b'' ''user'' ''s2'' ''two'' 6),
      (''c'', example_message ''c'' ''assistant'' ''s1'' ''three'' 5),
      (''d'', example_message ''d'' ''user'' ''s1'' ''four'' 3)]\<rparr>"


definition example_env :: env where
  "example_env =
     \<lparr>generateContent = (\<lambda>req. Inr \<lparr>response_text = Some ''Hello!'', candidates = None\<rparr>),
      base64_encode = (\<lambda>bytes. replicate (length bytes) CHR ''A''),
      base64_decode = (\<lambda>s. replicate (length s) 0)\<rparr>"

definition uploads_fs :: filesystem where
  "uploads_fs = [''uploads'' \<mapsto> Directory]"

definition example_fs :: filesystem where
  "example_fs = [''uploads/cat'' \<mapsto> File [1, 2, 3]]"


definition failing_env :: env where
  "failing_env =
     \<lparr>generateContent = (\<lambda>req. Inl (Error ''503 Service Unavailable'')),
      base64_encode = (\<lambda>bytes. replicate (length bytes) CHR ''A''),
      base64_decode = (\<lambda>s. replicate (length s) 0)\<rparr>"

definition image_env :: env where
  "image_env =
     \<lparr>generateContent = (\<lambda>req. Inr \<lparr>response_text = None,
          candidates = Some [Candidate (Some (RContent (Some
            [RPart None,
             RPart (Some (Blob (Some
               (case contents req of
                  ContentsList [Content _ [TextPart (JString p)]] \<Rightarrow> p
                | _ \<Rightarrow> ''none''))))])))]\<rparr>),
      base64_encode = (\<lambda>bytes. replicate (length bytes) CHR ''A''),
      base64_decode = (\<lambda>s. replicate (length s) 0)\<rparr>"

definition sphere_body :: jsval where
  "sphere_body = JObject [(''prompt'', JString ''a blue sphere''), (''sessionId'', JString ''s3'')]"

definition hi_body :: jsval where
  "hi_body = JObject [(''message'', JString ''Hi''), (''sessionId'', JString ''s1'')]"

definition cube_body :: jsval where
  "cube_body = JObject [(''prompt'', JString ''a red cube''), (''sessionId'', JString ''s2'')]"

definition generated_user :: "string \<Rightarrow> string \<Rightarrow> string \<Rightarrow> int \<Rightarrow> Message" where
  "generated_user u sid prompt t =
     \<lparr>content = JString (''Generate an image: '' @ prompt), role = ''user'',
      sessionId = JString sid,
      imageUrl = None, messageType = Some ''text'', id' = u, timestamp = t\<rparr>"

definition generated_assistant :: "string \<Rightarrow> string \<Rightarrow> string \<Rightarrow> int \<Rightarrow> Message" where
  "generated_assistant u sid prompt t =
     \<lparr>content = JString (''I've generated an image based on your prompt: '' @ [CHR 0x22]
                 @ prompt @ [CHR 0x22]),
      role = ''assistant'', sessionId = JString sid,
      imageUrl = Some ''uploads/generated_1700000000000.jpg'',
      messageType = Some ''image_generation'', id' = u, timestamp = t\<rparr>"

definition repeated_field_request :: UploadRequest where
  "repeated_field_request =
     \<lparr>req_file = Some \<lparr>file_path = ''uploads/cat'', mimetype = ''image/png'', file_size = 3\<rparr>,
      req_body = [(''sessionId'', JArray [JString ''s1'', JString ''s2''])]\<rparr>"

section \<open>Properties of the store\<close>

lemma sort_insert_by_timestamp:
  "sort_insert by_timestamp x ys = insort_key timestamp x ys"
  by (induction ys) (simp_all add: by_timestamp_def)

lemma array_sort_by_timestamp: "array_sort by_timestamp xs = sort_key timestamp xs"
  by (induction xs) (simp_all add: array_sort_def sort_insert_by_timestamp)

lemma wf_new_MemStorage: "wf_store new_MemStorage"
  by (simp add: wf_store_def new_MemStorage_def)

lemma update_fresh: "k \<notin> set (map fst m) \<Longrightarrow> AList.update k v m = m @ [(k, v)]"
  by (induction m) auto

lemma createMessage_fresh:
  "fresh uuid st \<Longrightarrow>
   messages (snd (createMessage st uuid now ins)) =
     messages st @ [(uuid, fst (createMessage st uuid now ins))]"
  by (simp add: createMessage_def fresh_def map_set_def Let_def update_fresh)

lemma wf_createMessage: "wf_store st \<Longrightarrow> wf_store (snd (createMessage st uuid now ins))"
  by (simp add: wf_store_def createMessage_def map_set_def Let_def distinct_update)

lemma foldl_delete:
  "foldl (\<lambda>m i. map_delete i m) m ks = filter (\<lambda>(k, _). k \<notin> set ks) m"
proof (induction ks arbitrary: m)
  case Nil
  show ?case by simp
next
  case (Cons k ks)
  have "filter (\<lambda>(k', _). k' \<notin> set ks) (map_delete k m)
        = filter (\<lambda>(k', _). k' \<notin> set (k # ks)) m"
    by (induction m) (auto simp: map_delete_def)
  with Cons show ?case by simp
qed

lemma messages_clear:
  "messages (clearMessagesBySessionId st sid) =
     filter (\<lambda>(k, _). k \<notin> fst ` {e \<in> set (messages st). sessionId (snd e) = JString sid})
            (messages st)"
proof -
  have "set (map fst (filter (\<lambda>(_, message). sessionId message = JString sid) (messages st)))
        = fst ` {e \<in> set (messages st). sessionId (snd e) = JString sid}"
    by (auto simp: image_iff)
  then show ?thesis
    by (simp add: clearMessagesBySessionId_def Let_def map_entries_def foldl_delete)
qed

lemma messages_clear_wf:
  assumes "wf_store st"
  shows "messages (clearMessagesBySessionId st sid) =
           filter (\<lambda>(_, message). sessionId message \<noteq> JString sid) (messages st)"
proof -
  let ?D = "fst ` {e \<in> set (messages st). sessionId (snd e) = JString sid}"
  have key: "(k \<notin> ?D) = (sessionId v \<noteq> JString sid)" if kv: "(k, v) \<in> set (messages st)" for k v
  proof
    assume "k \<notin> ?D"
    with kv show "sessionId v \<noteq> JString sid" by (auto simp: image_iff)
  next
    assume neq: "sessionId v \<noteq> JString sid"
    show "k \<notin> ?D"
    proof
      assume "k \<in> ?D"
      then obtain v' where v': "(k, v') \<in> set (messages st)" "sessionId v' = JString sid"
        by (auto simp: image_iff)
      from assms have "distinct (map fst (messages st))" by (simp add: wf_store_def)
      from eq_key_imp_eq_value [OF this v'(1) kv] have "v' = v" .
      with v'(2) neq show False by simp
    qed
  qed
  have "filter (\<lambda>(k, _). k \<notin> ?D) (messages st)
        = filter (\<lambda>(_, message). sessionId message \<noteq> JString sid) (messages st)"
  proof (rule filter_cong [OF refl])
    fix e
    assume e: "e \<in> set (messages st)"
    obtain k v where kv: "e = (k, v)" by (cases e)
    from e kv key [of k v]
    show "(case e of (k, _) \<Rightarrow> k \<notin> ?D) = (case e of (_, message) \<Rightarrow> sessionId message \<noteq> JString sid)"
      by simp
  qed
  then show ?thesis by (simp only: messages_clear)
qed

lemma wf_clear: "wf_store st \<Longrightarrow> wf_store (clearMessagesBySessionId st sid)"
  by (simp add: wf_store_def messages_clear distinct_map_filter)

lemma clear_no_session:
  "\<forall>e \<in> set (messages (clearMessagesBySessionId st sid)). sessionId (snd e) \<noteq> JString sid"
  by (force simp: messages_clear)

lemma clear_unknown:
  assumes "\<forall>e \<in> set (messages st). sessionId (snd e) \<noteq> JString sid"
  shows "clearMessagesBySessionId st sid = st"
proof -
  have "filter (\<lambda>(_, message). sessionId message = JString sid) (messages st) = []"
    using assms by (auto simp: filter_empty_conv)
  then show ?thesis
    by (simp add: clearMessagesBySessionId_def Let_def map_entries_def)
qed

section \<open>Listing and clearing a session\<close>

lemmas example_defs =
  example_store_def example_message_def getMessagesBySessionId_def map_values_def
  array_sort_def by_timestamp_def clearMessagesBySessionId_def map_entries_def
  map_delete_def wf_store_def

lemma values_filter:
  "filter P (map_values (filter (\<lambda>(_, m). Q m) ms)) = filter (\<lambda>m. P m \<and> Q m) (map_values ms)"
  by (induction ms) (auto simp: map_values_def)

text \<open>
  C3: for every session and every store, \<^verbatim>\<open>getMessagesBySessionId\<close> returns exactly the
  stored messages of that session (as a multiset), in non-decreasing order of timestamp;
  no message of another session appears; and a session without messages yields the empty
  list (the function is total, it has no error result).
\<close>

theorem getMessagesBySessionId_correct:
  "mset (getMessagesBySessionId st sid) =
     mset (filter (\<lambda>m. sessionId m = JString sid) (map_values (messages st)))
   \<and> sorted (map timestamp (getMessagesBySessionId st sid))
   \<and> (\<forall>m \<in> set (getMessagesBySessionId st sid). sessionId m = JString sid)
   \<and> ((\<forall>m \<in> set (map_values (messages st)). sessionId m \<noteq> JString sid) \<longrightarrow>
        getMessagesBySessionId st sid = [])"
  by (simp add: getMessagesBySessionId_def array_sort_by_timestamp filter_empty_conv)

theorem getMessagesBySessionId_correct_witness:
  "getMessagesBySessionId example_store ''s1'' =
     [example_message ''d'' ''user'' ''s1'' ''four'' 3,
      example_message ''a'' ''user'' ''s1'' ''one'' 5,
      example_message ''c'' ''assistant'' ''s1'' ''three'' 5]
   \<and> sorted (map timestamp (getMessagesBySessionId example_store ''s1''))
   \<and> getMessagesBySessionId example_store ''s9'' = []"
proof -
  have listed: "getMessagesBySessionId example_store ''s1'' =
     [example_message ''d'' ''user'' ''s1'' ''four'' 3,
      example_message ''a'' ''user'' ''s1'' ''one'' 5,
      example_message ''c'' ''assistant'' ''s1'' ''three'' 5]"
    by (simp add: example_defs)
  have unknown: "\<forall>m \<in> set (map_values (messages example_store)). sessionId m \<noteq> JString ''s9''"
    by (simp add: example_store_def example_message_def map_values_def)
  note s1 = getMessagesBySessionId_correct [of example_store "''s1''"]
  note s9 = getMessagesBySessionId_correct [of example_store "''s9''"]
  from s1 have ordered: "sorted (map timestamp (getMessagesBySessionId example_store ''s1''))"
    by blast
  from s9 unknown have empty: "getMessagesBySessionId example_store ''s9'' = []"
    by blast
  from listed ordered empty show ?thesis
    by (intro conjI)
qed

text \<open>
  C4: \<^verbatim>\<open>clearMessagesBySessionId\<close> removes exactly the entries whose message has the given
  session and keeps the others, in their order, so every other session lists as before
  (the keys of the map being distinct); the users are untouched; clearing a session that has
  no message changes nothing; clearing twice is clearing once; and after a clear the session
  lists as empty.
\<close>

theorem clearMessagesBySessionId_correct:
  "(wf_store st \<longrightarrow>
      messages (clearMessagesBySessionId st sid) =
        filter (\<lambda>(_, message). sessionId message \<noteq> JString sid) (messages st))
   \<and> (wf_store st \<longrightarrow>
        (\<forall>sid'. sid' \<noteq> sid \<longrightarrow>
           getMessagesBySessionId (clearMessagesBySessionId st sid) sid' =
             getMessagesBySessionId st sid'))
   \<and> users (clearMessagesBySessionId st sid) = users st
   \<and> ((\<forall>m \<in> set (map_values (messages st)). sessionId m \<noteq> JString sid) \<longrightarrow>
        clearMessagesBySessionId st sid = st)
   \<and> clearMessagesBySessionId (clearMessagesBySessionId st sid) sid =
        clearMessagesBySessionId st sid
   \<and> getMessagesBySessionId (clearMessagesBySessionId st sid) sid = []"
proof (intro conjI impI allI)
  assume "wf_store st"
  then show "messages (clearMessagesBySessionId st sid) =
        filter (\<lambda>(_, message). sessionId message \<noteq> JString sid) (messages st)"
    by (rule messages_clear_wf)
next
  fix sid'
  assume wf: "wf_store st" and neq: "sid' \<noteq> sid"
  have "filter (\<lambda>m. sessionId m = JString sid' \<and> sessionId m \<noteq> JString sid) (map_values (messages st))
        = filter (\<lambda>m. sessionId m = JString sid') (map_values (messages st))"
    using neq by (intro filter_cong) auto
  then show "getMessagesBySessionId (clearMessagesBySessionId st sid) sid' =
             getMessagesBySessionId st sid'"
    by (simp add: getMessagesBySessionId_def messages_clear_wf [OF wf] values_filter)
next
  show "users (clearMessagesBySessionId st sid) = users st"
    by (simp add: clearMessagesBySessionId_def Let_def)
next
  assume "\<forall>m \<in> set (map_values (messages st)). sessionId m \<noteq> JString sid"
  then have "\<forall>e \<in> set (messages st). sessionId (snd e) \<noteq> JString sid"
    by (simp add: map_values_def)
  then show "clearMessagesBySessionId st sid = st"
    by (rule clear_unknown)
next
  show "clearMessagesBySessionId (clearMessagesBySessionId st sid) sid =
        clearMessagesBySessionId st sid"
    by (rule clear_unknown) (rule clear_no_session)
next
  have "filter (\<lambda>m. sessionId m = JString sid)
          (map_values (messages (clearMessagesBySessionId st sid))) = []"
    using clear_no_session [of st sid] by (auto simp: filter_empty_conv map_values_def)
  then show "getMessagesBySessionId (clearMessagesBySessionId st sid) sid = []"
    by (simp add: getMessagesBySessionId_def array_sort_def)
qed

theorem clearMessagesBySessionId_correct_witness:
  "wf_store example_store
   \<and> messages (clearMessagesBySessionId example_store ''s1'') =
       [(''b'', example_message ''b'' ''user'' ''s2'' ''two'' 6)]
   \<and> getMessagesBySessionId (clearMessagesBySessionId example_store ''s1'') ''s1'' = []
   \<and> clearMessagesBySessionId example_store ''s9'' = example_store"
proof -
  have wf: "wf_store example_store"
    by (simp add: example_store_def wf_store_def)
  have unknown: "\<forall>m \<in> set (map_values (messages example_store)). sessionId m \<noteq> JString ''s9''"
    by (simp add: example_store_def example_message_def map_values_def)
  have kept: "filter (\<lambda>(_, message). sessionId message \<noteq> JString ''s1'') (messages example_store) =
       [(''b'', example_message ''b'' ''user'' ''s2'' ''two'' 6)]"
    by (simp add: example_store_def example_message_def)
  note s1 = clearMessagesBySessionId_correct [of example_store "''s1''"]
  note s9 = clearMessagesBySessionId_correct [of example_store "''s9''"]
  from s1 wf have "messages (clearMessagesBySessionId example_store ''s1'') =
       filter (\<lambda>(_, message). sessionId message \<noteq> JString ''s1'') (messages example_store)"
    by blast
  with kept have removed: "messages (clearMessagesBySessionId example_store ''s1'') =
       [(''b'', example_message ''b'' ''user'' ''s2'' ''two'' 6)]"
    by (simp only:)
  from s1 have empty:
    "getMessagesBySessionId (clearMessagesBySessionId example_store ''s1'') ''s1'' = []"
    by blast
  from s9 unknown have noop: "clearMessagesBySessionId example_store ''s9'' = example_store"
    by blast
  from wf removed empty noop show ?thesis
    by (intro conjI)
qed

text \<open>
  C10: the messages of a session that carry one and the same timestamp are listed in the
  order in which the store holds them, and the store holds messages in the order of their
  creation: \<^verbatim>\<open>createMessage\<close> with a new identifier appends.
\<close>

theorem equal_timestamps_keep_creation_order:
  "filter (\<lambda>m. timestamp m = t) (getMessagesBySessionId st sid) =
     filter (\<lambda>m. timestamp m = t)
       (filter (\<lambda>m. sessionId m = JString sid) (map_values (messages st)))
   \<and> (fresh uuid st \<longrightarrow>
        map_values (messages (snd (createMessage st uuid now ins))) =
          map_values (messages st) @ [fst (createMessage st uuid now ins)])"
  by (simp add: getMessagesBySessionId_def array_sort_by_timestamp sort_key_stable
        createMessage_fresh map_values_def)

theorem equal_timestamps_keep_creation_order_witness:
  "fresh ''e'' example_store
   \<and> filter (\<lambda>m. timestamp m = 5) (getMessagesBySessionId example_store ''s1'') =
       [example_message ''a'' ''user'' ''s1'' ''one'' 5,
        example_message ''c'' ''assistant'' ''s1'' ''three'' 5]
   \<and> map_values (messages (snd (createMessage example_store ''e'' 5
         \<lparr>content = JString ''five'', role = ''user'', sessionId = JString ''s1'',
          imageUrl = None, messageType = None\<rparr>))) =
       map_values (messages example_store) @
         [example_message ''e'' ''user'' ''s1'' ''five'' 5]"
proof -
  have f: "fresh ''e'' example_store"
    by (simp add: fresh_def example_defs)
  have c: "fst (createMessage example_store ''e'' 5
         \<lparr>content = JString ''five'', role = ''user'', sessionId = JString ''s1'',
          imageUrl = None, messageType = None\<rparr>) = example_message ''e'' ''user'' ''s1'' ''five'' 5"
    by (simp add: createMessage_def Let_def or_null_def or_else_def truthy_def example_message_def)
  note inst = equal_timestamps_keep_creation_order [of 5 example_store "''s1''" "''e''" 5
         "\<lparr>content = JString ''five'', role = ''user'', sessionId = JString ''s1'',
          imageUrl = None, messageType = None\<rparr>"]
  have ties: "filter (\<lambda>m. timestamp m = 5)
         (filter (\<lambda>m. sessionId m = JString ''s1'') (map_values (messages example_store))) =
       [example_message ''a'' ''user'' ''s1'' ''one'' 5,
        example_message ''c'' ''assistant'' ''s1'' ''three'' 5]"
    by (simp add: example_store_def example_message_def map_values_def)
  from inst have stable: "filter (\<lambda>m. timestamp m = 5) (getMessagesBySessionId example_store ''s1'') =
       filter (\<lambda>m. timestamp m = 5)
         (filter (\<lambda>m. sessionId m = JString ''s1'') (map_values (messages example_store)))"
    by (rule conjunct1)
  from inst [THEN conjunct2, THEN mp, OF f]
  have appended: "map_values (messages (snd (createMessage example_store ''e'' 5
         \<lparr>content = JString ''five'', role = ''user'', sessionId = JString ''s1'',
          imageUrl = None, messageType = None\<rparr>))) =
       map_values (messages example_store) @
         [example_message ''e'' ''user'' ''s1'' ''five'' 5]"
    by (simp only: c)
  from stable ties
  have tied: "filter (\<lambda>m. timestamp m = 5) (getMessagesBySessionId example_store ''s1'') =
       [example_message ''a'' ''user'' ''s1'' ''one'' 5,
        example_message ''c'' ''assistant'' ''s1'' ''three'' 5]"
    by (simp only:)
  from f tied appended show ?thesis
    by (intro conjI)
qed

section \<open>The history assembler\<close>










section \<open>Paths of generated images\<close>

lemma split_on_no_sep: "c \<notin> set s \<Longrightarrow> split_on c s = [s]"
  by (induction s) auto

lemma split_on_append:
  "c \<notin> set a \<Longrightarrow> split_on c (a @ c # s) = a # split_on c s"
  by (induction a) auto

lemma path_join_uploads:
  assumes "CHR ''/'' \<notin> set f" and "f \<noteq> []" and "f \<noteq> ''.''" and "f \<noteq> ''..''"
  shows "path_join [''uploads'', f] = ''uploads/'' @ f"
proof -
  have split: "split_on CHR ''/'' (''uploads'' @ CHR ''/'' # f) = [''uploads'', f]"
  proof -
    have "CHR ''/'' \<notin> set ''uploads''" by simp
    from split_on_append [OF this, of f] split_on_no_sep [OF assms(1)]
    show ?thesis by (simp only:)
  qed
  have last: "last (''uploads/'' @ f) \<noteq> CHR ''/''"
    using assms(1,2) by (metis last_appendR last_in_set)
  have norm: "normalizeString True [] [''uploads'', f] = [''uploads'', f]"
    using assms(2,3,4) by simp
  have "path_normalize (''uploads/'' @ f) = ''uploads/'' @ f"
    using split last norm by (simp add: path_normalize_def isAbsolute_def Let_def)
  then show ?thesis
    using assms(2) by (simp add: path_join_def Let_def)
qed

lemma digit_no_slash: "digit n \<noteq> CHR ''/''"
proof -
  have "n mod 10 < length ''0123456789''" by simp
  then have "digit n \<in> set ''0123456789''"
    unfolding digit_def by (rule nth_mem)
  then show ?thesis by auto
qed

lemma decimal_digits_no_slash: "CHR ''/'' \<notin> set (decimal_digits n)"
proof (induction n rule: decimal_digits.induct)
  case (1 n)
  show ?case
  proof (cases "10 \<le> n")
    case True
    with 1 show ?thesis
      using digit_no_slash [of n] by (subst decimal_digits.simps) auto
  next
    case False
    then show ?thesis
      using digit_no_slash [of n] by (subst decimal_digits.simps) auto
  qed
qed

lemma imageFilename_no_slash: "CHR ''/'' \<notin> set (imageFilename now)"
  by (simp add: imageFilename_def number_toString_def decimal_digits_no_slash)

lemma imagePath_generated:
  "path_join [''uploads'', imageFilename now] = ''uploads/'' @ imageFilename now"
  by (rule path_join_uploads) (simp_all add: imageFilename_no_slash, simp_all add: imageFilename_def)

section \<open>What the request handlers persist\<close>

lemma createMessage_fields:
  assumes "createMessage st u t ins = (m, st')"
  shows "content m = content ins" "role m = role ins" "sessionId m = sessionId ins"
    "imageUrl m = or_null (imageUrl ins)"
    "messageType m = Some (or_else (messageType ins) ''text'')"
    "id' m = u" "timestamp m = t" "users st' = users st"
    "messages st' = map_set u m (messages st)"
  using assms by (auto simp: createMessage_def Let_def)

lemma createMessage_appends:
  assumes "createMessage st u t ins = (m, st')" and "fresh u st"
  shows "messages st' = messages st @ [(u, m)]"
  using assms createMessage_fresh [of u st t ins] by simp

lemma createMessage_keeps_fresh:
  assumes "createMessage st u t ins = (m, st')" and "fresh u' st" and "u' \<noteq> u"
  shows "fresh u' st'"
proof -
  from assms(1) have "messages st' = AList.update u m (messages st)"
    by (simp add: createMessage_fields(9) map_set_def)
  then have "fst ` set (messages st') = {u} \<union> fst ` set (messages st)"
    by (simp only: dom_update)
  with assms(2,3) show ?thesis
    by (simp add: fresh_def)
qed

lemma chat_handler_cases:
  assumes "chat_handler e fs (u1, t1) (u2, t2) body st = (r, st')"
  shows "(\<exists>err. chatRequestSchema_parse body = Inl err \<and> r = StatusError 500 err \<and> st' = st)
    \<or> (\<exists>message sid um err.
          chatRequestSchema_parse body = Inr (message, sid)
          \<and> createMessage st u1 t1
                \<lparr>content = JString message, role = ''user'', sessionId = JString sid,
                 imageUrl = None, messageType = None\<rparr> = (um, st')
          \<and> generateChatResponseWithHistory e fs (conversationHistory st' sid) = Inl err
          \<and> r = StatusError 500 err)
    \<or> (\<exists>message sid um st1 responseText am.
          chatRequestSchema_parse body = Inr (message, sid)
          \<and> createMessage st u1 t1
                \<lparr>content = JString message, role = ''user'', sessionId = JString sid,
                 imageUrl = None, messageType = None\<rparr> = (um, st1)
          \<and> generateChatResponseWithHistory e fs (conversationHistory st1 sid) = Inr responseText
          \<and> createMessage st1 u2 t2
                \<lparr>content = JString responseText, role = ''assistant'', sessionId = JString sid,
                 imageUrl = None, messageType = None\<rparr> = (am, st')
          \<and> r = JsonPair um am)"
  using assms
  by (auto simp: chat_handler_def Let_def split: sum.splits prod.splits)

lemma upload_image_handler_cases:
  assumes "upload_image_handler e fs (u1, t1) (u2, t2) req st = (r, st')"
  shows "(r = Status 400 ''No image file provided'' \<and> st' = st)
    \<or> (r = Status 400 ''Session ID is required'' \<and> st' = st)
    \<or> (\<exists>f sid content um err.
          req_file req = Some f
          \<and> createMessage st u1 t1
                \<lparr>content = content, role = ''user'', sessionId = sid,
                 imageUrl = Some (file_path f), messageType = Some ''image''\<rparr> = (um, st')
          \<and> r = StatusError 500 err)
    \<or> (\<exists>f sid content um st1 analysisResult am.
          req_file req = Some f
          \<and> createMessage st u1 t1
                \<lparr>content = content, role = ''user'', sessionId = sid,
                 imageUrl = Some (file_path f), messageType = Some ''image''\<rparr> = (um, st1)
          \<and> createMessage st1 u2 t2
                \<lparr>content = JString analysisResult, role = ''assistant'', sessionId = sid,
                 imageUrl = None, messageType = Some ''text''\<rparr> = (am, st')
          \<and> r = JsonPair um am)"
  using assms
  by (auto simp: upload_image_handler_def Let_def
           split: sum.splits prod.splits option.splits if_splits)

lemma generate_image_handler_cases:
  assumes "generate_image_handler e fs (u1, t1) now (u2, t2) body st = (r, st', fs')"
  shows "(\<exists>err. imageGenerationSchema_parse body = Inl err \<and> r = StatusError 500 err
            \<and> st' = st \<and> fs' = fs)
    \<or> (\<exists>prompt sid um err.
          imageGenerationSchema_parse body = Inr (prompt, sid)
          \<and> createMessage st u1 t1
                \<lparr>content = JString (''Generate an image: '' @ prompt), role = ''user'',
                 sessionId = JString sid, imageUrl = None, messageType = Some ''text''\<rparr> = (um, st')
          \<and> generateImage e fs prompt (path_join [''uploads'', imageFilename now]) = Inl err
          \<and> r = StatusError 500 err \<and> fs' = fs)
    \<or> (\<exists>prompt sid um st1 am.
          imageGenerationSchema_parse body = Inr (prompt, sid)
          \<and> createMessage st u1 t1
                \<lparr>content = JString (''Generate an image: '' @ prompt), role = ''user'',
                 sessionId = JString sid, imageUrl = None, messageType = Some ''text''\<rparr> = (um, st1)
          \<and> generateImage e fs prompt (path_join [''uploads'', imageFilename now]) = Inr fs'
          \<and> createMessage st1 u2 t2
                \<lparr>content = JString (''I've generated an image based on your prompt: ''
                             @ [CHR 0x22] @ prompt @ [CHR 0x22]),
                 role = ''assistant'', sessionId = JString sid,
                 imageUrl = Some (path_join [''uploads'', imageFilename now]),
                 messageType = Some ''image_generation''\<rparr> = (am, st')
          \<and> r = JsonPair um am)"
  using assms
  by (auto simp: generate_image_handler_def Let_def split: sum.splits prod.splits)

text \<open>One message stored, then perhaps a second: what the store holds afterwards.\<close>

lemma stored_one:
  assumes "createMessage st u1 t1 ins = (um, st')" and "fresh u1 st"
  shows "messages st' = messages st @ [(u1, um)] \<and> role um = role ins"
  using createMessage_appends [OF assms] createMessage_fields(2) [OF assms(1)] by simp

lemma stored_two:
  assumes one: "createMessage st u1 t1 ins1 = (um, st1)"
    and two: "createMessage st1 u2 t2 ins2 = (am, st')"
    and fresh: "fresh u1 st" "fresh u2 st" "u1 \<noteq> u2"
  shows "messages st' = messages st @ [(u1, um), (u2, am)]
         \<and> role um = role ins1 \<and> role am = role ins2"
proof -
  from fresh have "fresh u2 st1"
    using createMessage_keeps_fresh [OF one] by blast
  from createMessage_appends [OF two this] createMessage_appends [OF one fresh(1)]
  have "messages st' = messages st @ [(u1, um), (u2, am)]" by simp
  with createMessage_fields(2) [OF one] createMessage_fields(2) [OF two]
  show ?thesis by simp
qed


lemma chat_handler_persists:
  assumes run: "chat_handler e fs (u1, t1) (u2, t2) body st = (r, st')"
    and fresh: "fresh u1 st" "fresh u2 st" "u1 \<noteq> u2"
  shows "persisted_none_user_or_both st u1 u2 r st'"
  using chat_handler_cases [OF run]
proof (elim disjE exE conjE)
  fix err
  assume "st' = st"
  then show ?thesis by simp
next
  fix message sid um err
  assume c: "createMessage st u1 t1
        \<lparr>content = JString message, role = ''user'', sessionId = JString sid,
         imageUrl = None, messageType = None\<rparr> = (um, st')"
    and r: "r = StatusError 500 err"
  from stored_one [OF c fresh(1)] r show ?thesis by simp
next
  fix message sid um st1 responseText am
  assume c1: "createMessage st u1 t1
        \<lparr>content = JString message, role = ''user'', sessionId = JString sid,
         imageUrl = None, messageType = None\<rparr> = (um, st1)"
    and c2: "createMessage st1 u2 t2
        \<lparr>content = JString responseText, role = ''assistant'', sessionId = JString sid,
         imageUrl = None, messageType = None\<rparr> = (am, st')"
    and r: "r = JsonPair um am"
  from stored_two [OF c1 c2 fresh] r show ?thesis by simp
qed

lemma upload_image_handler_persists:
  assumes run: "upload_image_handler e fs (u1, t1) (u2, t2) req st = (r, st')"
    and fresh: "fresh u1 st" "fresh u2 st" "u1 \<noteq> u2"
  shows "persisted_none_user_or_both st u1 u2 r st'"
  using upload_image_handler_cases [OF run]
proof (elim disjE exE conjE)
  assume "st' = st"
  then show ?thesis by simp
next
  assume "st' = st"
  then show ?thesis by simp
next
  fix f sid content um err
  assume c: "createMessage st u1 t1
        \<lparr>content = content, role = ''user'', sessionId = sid,
         imageUrl = Some (file_path f), messageType = Some ''image''\<rparr> = (um, st')"
    and r: "r = StatusError 500 err"
  from stored_one [OF c fresh(1)] r show ?thesis by simp
next
  fix f sid content um st1 analysisResult am
  assume c1: "createMessage st u1 t1
        \<lparr>content = content, role = ''user'', sessionId = sid,
         imageUrl = Some (file_path f), messageType = Some ''image''\<rparr> = (um, st1)"
    and c2: "createMessage st1 u2 t2
        \<lparr>content = JString analysisResult, role = ''assistant'', sessionId = sid,
         imageUrl = None, messageType = Some ''text''\<rparr> = (am, st')"
    and r: "r = JsonPair um am"
  from stored_two [OF c1 c2 fresh] r show ?thesis by simp
qed

lemma upload_image_route_persists:
  assumes run: "upload_image_route e fs (u1, t1) (u2, t2) req st = (r, st')"
    and fresh: "fresh u1 st" "fresh u2 st" "u1 \<noteq> u2"
  shows "persisted_none_user_or_both st u1 u2 r st'"
proof (cases "upload_single req")
  case (Inl err)
  with run have "st' = st" by (simp add: upload_image_route_def)
  then show ?thesis by simp
next
  case (Inr req')
  with run have "upload_image_handler e fs (u1, t1) (u2, t2) req' st = (r, st')"
    by (simp add: upload_image_route_def)
  from upload_image_handler_persists [OF this fresh] show ?thesis .
qed

lemma generate_image_handler_persists:
  assumes run: "generate_image_handler e fs (u1, t1) now (u2, t2) body st = (r, st', fs')"
    and fresh: "fresh u1 st" "fresh u2 st" "u1 \<noteq> u2"
  shows "persisted_none_user_or_both st u1 u2 r st'"
  using generate_image_handler_cases [OF run]
proof (elim disjE exE conjE)
  fix err
  assume "st' = st"
  then show ?thesis by simp
next
  fix prompt sid um err
  assume c: "createMessage st u1 t1
        \<lparr>content = JString (''Generate an image: '' @ prompt), role = ''user'',
         sessionId = JString sid, imageUrl = None, messageType = Some ''text''\<rparr> = (um, st')"
    and r: "r = StatusError 500 err"
  from stored_one [OF c fresh(1)] r show ?thesis by simp
next
  fix prompt sid um st1 am
  assume c1: "createMessage st u1 t1
        \<lparr>content = JString (''Generate an image: '' @ prompt), role = ''user'',
         sessionId = JString sid, imageUrl = None, messageType = Some ''text''\<rparr> = (um, st1)"
    and c2: "createMessage st1 u2 t2
        \<lparr>content = JString (''I've generated an image based on your prompt: ''
                     @ [CHR 0x22] @ prompt @ [CHR 0x22]),
         role = ''assistant'', sessionId = JString sid,
         imageUrl = Some (path_join [''uploads'', imageFilename now]),
         messageType = Some ''image_generation''\<rparr> = (am, st')"
    and r: "r = JsonPair um am"
  from stored_two [OF c1 c2 fresh] r show ?thesis by simp
qed


text \<open>The same, from the request to the outcome.\<close>

lemma chat_outcomes_hold:
  assumes fresh: "fresh u1 st" "fresh u2 st" "u1 \<noteq> u2"
  shows "chat_outcomes e fs u1 t1 u2 t2 body st"
proof (intro conjI allI impI; (elim conjE)?)
  fix err
  assume "chatRequestSchema_parse body = Inl err"
  then show "chat_handler e fs (u1, t1) (u2, t2) body st = (StatusError 500 err, st)"
    by (simp add: chat_handler_def)
next
  fix message sid um st1
  assume c1: "createMessage st u1 t1
        \<lparr>content = JString message, role = ''user'', sessionId = JString sid,
         imageUrl = None, messageType = None\<rparr> = (um, st1)"
  from stored_one [OF c1 fresh(1)]
  show "messages st1 = messages st @ [(u1, um)]" and "role um = ''user''"
    by simp_all
next
  fix message sid um st1 err
  assume "chatRequestSchema_parse body = Inr (message, sid)"
    and "createMessage st u1 t1
        \<lparr>content = JString message, role = ''user'', sessionId = JString sid,
         imageUrl = None, messageType = None\<rparr> = (um, st1)"
    and "generateChatResponseWithHistory e fs (conversationHistory st1 sid) = Inl err"
  then show "chat_handler e fs (u1, t1) (u2, t2) body st = (StatusError 500 err, st1)"
    by (simp add: chat_handler_def)
next
  fix message sid um st1 responseText am st2
  assume p: "chatRequestSchema_parse body = Inr (message, sid)"
    and c1: "createMessage st u1 t1
        \<lparr>content = JString message, role = ''user'', sessionId = JString sid,
         imageUrl = None, messageType = None\<rparr> = (um, st1)"
    and g: "generateChatResponseWithHistory e fs (conversationHistory st1 sid) = Inr responseText"
    and c2: "createMessage st1 u2 t2
        \<lparr>content = JString responseText, role = ''assistant'',
         sessionId = JString sid, imageUrl = None, messageType = None\<rparr> = (am, st2)"
  from p c1 g c2
  show "chat_handler e fs (u1, t1) (u2, t2) body st = (JsonPair um am, st2)"
    by (simp add: chat_handler_def)
  from stored_two [OF c1 c2 fresh]
  show "messages st2 = messages st @ [(u1, um), (u2, am)]" and "role am = ''assistant''"
    by simp_all
qed

lemma upload_single_accepts: "upload_single req = Inr req' \<Longrightarrow> req' = req"
  by (auto simp: upload_single_def split: option.splits if_splits)

lemma upload_outcomes_hold:
  assumes fresh: "fresh u1 st" "fresh u2 st" "u1 \<noteq> u2"
  shows "upload_outcomes e fs u1 t1 u2 t2 req st"
proof (intro conjI allI impI; (elim conjE)?)
  fix err
  assume "upload_single req = Inl err"
  then show "upload_image_route e fs (u1, t1) (u2, t2) req st = (StatusError 500 err, st)"
    by (simp add: upload_image_route_def)
next
  assume "upload_single req = Inr req" and "req_file req = None"
  then show "upload_image_route e fs (u1, t1) (u2, t2) req st =
               (Status 400 ''No image file provided'', st)"
    by (simp add: upload_image_route_def upload_image_handler_def)
next
  fix f
  assume "upload_single req = Inr req" and "req_file req = Some f"
    and "\<not> js_truthy (body_sessionId req)"
  then show "upload_image_route e fs (u1, t1) (u2, t2) req st =
               (Status 400 ''Session ID is required'', st)"
    by (simp add: upload_image_route_def upload_image_handler_def)
next
  fix f um st1
  assume c1: "createMessage st u1 t1
        \<lparr>content = js_or (body_message req)
                     (JString ''I've uploaded an image for you to analyze.''),
         role = ''user'', sessionId = body_sessionId req,
         imageUrl = Some (file_path f), messageType = Some ''image''\<rparr> = (um, st1)"
  from stored_one [OF c1 fresh(1)]
  show "messages st1 = messages st @ [(u1, um)]" and "role um = ''user''"
    by simp_all
next
  fix f um st1 err
  assume "upload_single req = Inr req" and "req_file req = Some f"
    and "js_truthy (body_sessionId req)"
    and "createMessage st u1 t1
        \<lparr>content = js_or (body_message req)
                     (JString ''I've uploaded an image for you to analyze.''),
         role = ''user'', sessionId = body_sessionId req,
         imageUrl = Some (file_path f), messageType = Some ''image''\<rparr> = (um, st1)"
    and "analyzeImage e fs (file_path f) (js_or (body_message req) JUndefined) = Inl err"
  then show "upload_image_route e fs (u1, t1) (u2, t2) req st = (StatusError 500 err, st1)"
    by (simp add: upload_image_route_def upload_image_handler_def)
next
  fix f um st1 analysisResult am st2
  assume a: "upload_single req = Inr req" "req_file req = Some f"
      "js_truthy (body_sessionId req)"
    and c1: "createMessage st u1 t1
        \<lparr>content = js_or (body_message req)
                     (JString ''I've uploaded an image for you to analyze.''),
         role = ''user'', sessionId = body_sessionId req,
         imageUrl = Some (file_path f), messageType = Some ''image''\<rparr> = (um, st1)"
    and g: "analyzeImage e fs (file_path f) (js_or (body_message req) JUndefined)
              = Inr analysisResult"
    and c2: "createMessage st1 u2 t2
        \<lparr>content = JString analysisResult, role = ''assistant'',
         sessionId = body_sessionId req,
         imageUrl = None, messageType = Some ''text''\<rparr> = (am, st2)"
  from a c1 g c2
  show "upload_image_route e fs (u1, t1) (u2, t2) req st = (JsonPair um am, st2)"
    by (simp add: upload_image_route_def upload_image_handler_def)
  from stored_two [OF c1 c2 fresh]
  show "messages st2 = messages st @ [(u1, um), (u2, am)]" and "role am = ''assistant''"
    by simp_all
qed

lemma generate_outcomes_hold:
  assumes fresh: "fresh u1 st" "fresh u2 st" "u1 \<noteq> u2"
  shows "generate_outcomes e fs u1 t1 now u2 t2 body st"
proof (intro conjI allI impI; (elim conjE)?)
  fix err
  assume "imageGenerationSchema_parse body = Inl err"
  then show "generate_image_handler e fs (u1, t1) now (u2, t2) body st =
               (StatusError 500 err, st, fs)"
    by (simp add: generate_image_handler_def)
next
  fix prompt sid um st1
  assume c1: "createMessage st u1 t1
        \<lparr>content = JString (''Generate an image: '' @ prompt), role = ''user'',
         sessionId = JString sid, imageUrl = None, messageType = Some ''text''\<rparr>
      = (um, st1)"
  from stored_one [OF c1 fresh(1)]
  show "messages st1 = messages st @ [(u1, um)]" and "role um = ''user''"
    by simp_all
next
  fix prompt sid um st1 err
  assume "imageGenerationSchema_parse body = Inr (prompt, sid)"
    and "createMessage st u1 t1
        \<lparr>content = JString (''Generate an image: '' @ prompt), role = ''user'',
         sessionId = JString sid, imageUrl = None, messageType = Some ''text''\<rparr>
      = (um, st1)"
    and "generateImage e fs prompt (path_join [''uploads'', imageFilename now]) = Inl err"
  then show "generate_image_handler e fs (u1, t1) now (u2, t2) body st
               = (StatusError 500 err, st1, fs)"
    by (simp add: generate_image_handler_def Let_def)
next
  fix prompt sid um st1 fs' am st2
  assume p: "imageGenerationSchema_parse body = Inr (prompt, sid)"
    and c1: "createMessage st u1 t1
        \<lparr>content = JString (''Generate an image: '' @ prompt), role = ''user'',
         sessionId = JString sid, imageUrl = None, messageType = Some ''text''\<rparr>
      = (um, st1)"
    and g: "generateImage e fs prompt (path_join [''uploads'', imageFilename now]) = Inr fs'"
    and c2: "createMessage st1 u2 t2
        \<lparr>content = JString (''I've generated an image based on your prompt: ''
                             @ [CHR 0x22] @ prompt @ [CHR 0x22]),
         role = ''assistant'', sessionId = JString sid,
         imageUrl = Some (path_join [''uploads'', imageFilename now]),
         messageType = Some ''image_generation''\<rparr> = (am, st2)"
  from p c1 g c2
  show "generate_image_handler e fs (u1, t1) now (u2, t2) body st
          = (JsonPair um am, st2, fs')"
    by (simp add: generate_image_handler_def Let_def)
  from stored_two [OF c1 c2 fresh]
  show "messages st2 = messages st @ [(u1, um), (u2, am)]" and "role am = ''assistant''"
    by simp_all
qed

text \<open>
  C1, as the code has it: with identifiers new to the store, each of the three protocols
  persists nothing when the request is rejected before persistence, exactly the user
  message (answering with status 500) when the external call fails after it was stored, and
  the user message followed by the assistant message on success. So an invocation leaves 0,
  1 or 2 new messages, and a lone message is the user's: the assistant message is never
  stored without it.
\<close>

theorem protocols_persist_none_user_or_both:
  assumes "fresh u1 st" and "fresh u2 st" and "u1 \<noteq> u2"
  shows "chat_outcomes e fs u1 t1 u2 t2 body st
       \<and> upload_outcomes e fs u1 t1 u2 t2 req st
       \<and> generate_outcomes e fs u1 t1 now u2 t2 body st
       \<and> (case chat_handler e fs (u1, t1) (u2, t2) body st of
            (r, st') \<Rightarrow> persisted_none_user_or_both st u1 u2 r st')
       \<and> (case upload_image_route e fs (u1, t1) (u2, t2) req st of
            (r, st') \<Rightarrow> persisted_none_user_or_both st u1 u2 r st')
       \<and> (case generate_image_handler e fs (u1, t1) now (u2, t2) body st of
            (r, st', fs') \<Rightarrow> persisted_none_user_or_both st u1 u2 r st')"
proof -
  have chat: "chat_outcomes e fs u1 t1 u2 t2 body st"
    by (rule chat_outcomes_hold [OF assms])
  have upload: "upload_outcomes e fs u1 t1 u2 t2 req st"
    by (rule upload_outcomes_hold [OF assms])
  have generate: "generate_outcomes e fs u1 t1 now u2 t2 body st"
    by (rule generate_outcomes_hold [OF assms])
  obtain r st' where run: "chat_handler e fs (u1, t1) (u2, t2) body st = (r, st')"
    by (cases "chat_handler e fs (u1, t1) (u2, t2) body st")
  from chat_handler_persists [OF run assms] run
  have chat': "case chat_handler e fs (u1, t1) (u2, t2) body st of
            (r, st') \<Rightarrow> persisted_none_user_or_both st u1 u2 r st'"
    by (simp only: prod.case)
  obtain r st' where run: "upload_image_route e fs (u1, t1) (u2, t2) req st = (r, st')"
    by (cases "upload_image_route e fs (u1, t1) (u2, t2) req st")
  from upload_image_route_persists [OF run assms] run
  have upload': "case upload_image_route e fs (u1, t1) (u2, t2) req st of
            (r, st') \<Rightarrow> persisted_none_user_or_both st u1 u2 r st'"
    by (simp only: prod.case)
  obtain r st' fs' where
    run: "generate_image_handler e fs (u1, t1) now (u2, t2) body st = (r, st', fs')"
    by (cases "generate_image_handler e fs (u1, t1) now (u2, t2) body st")
  from generate_image_handler_persists [OF run assms] run
  have generate': "case generate_image_handler e fs (u1, t1) now (u2, t2) body st of
            (r, st', fs') \<Rightarrow> persisted_none_user_or_both st u1 u2 r st'"
    by (simp only: prod.case)
  show ?thesis
    by (rule conjI [OF chat conjI [OF upload conjI [OF generate
          conjI [OF chat' conjI [OF upload' generate']]]]])
qed

section \<open>The three protocols on concrete requests\<close>

lemmas handler_defs =
  chat_handler_def chatRequestSchema_parse_def imageGenerationSchema_parse_def
  z_object_parse_def z_string_def get_prop_def createMessage_def Let_def
  or_null_def or_else_def truthy_def map_set_def conversationHistory_def
  getMessagesBySessionId_def map_values_def array_sort_def by_timestamp_def
  generateChatResponseWithHistory_def formatMessage_def external_role_def
  new_MemStorage_def


lemma getMessages_append:
  assumes "messages st' = messages st @ new"
  shows "filter (\<lambda>m. sessionId m = JString sid) (map_values (messages st')) =
         filter (\<lambda>m. sessionId m = JString sid) (map_values (messages st))
         @ filter (\<lambda>m. sessionId m = JString sid) (map snd new)"
  using assms by (simp add: map_values_def)

text \<open>
  C1 as stated fails: a text-message invocation on the empty store whose model call raises
  leaves exactly one message, the user's, in the store.
\<close>

theorem counterexample_one_message_persisted:
  "chat_handler failing_env Map.empty (''u1'', 1000) (''u2'', 1001) hi_body new_MemStorage =
     (StatusError 500 (Error ''Failed to generate response from Gemini API''),
      \<lparr>users = [], messages =
         [(''u1'', \<lparr>content = JString ''Hi'', role = ''user'', sessionId = JString ''s1'', imageUrl = None,
                   messageType = Some ''text'', id' = ''u1'', timestamp = 1000\<rparr>)]\<rparr>)
   \<and> length (messages (snd (chat_handler failing_env Map.empty (''u1'', 1000) (''u2'', 1001)
                                hi_body new_MemStorage)))
       = length (messages new_MemStorage) + 1"
  by (simp add: handler_defs failing_env_def hi_body_def)

theorem protocols_persist_none_user_or_both_witness:
  "fresh ''u1'' new_MemStorage \<and> fresh ''u2'' new_MemStorage \<and> ''u1'' \<noteq> ''u2''
   \<and> chatRequestSchema_parse hi_body = Inr (''Hi'', ''s1'')
   \<and> chat_handler failing_env Map.empty (''u1'', 1000) (''u2'', 1001) hi_body new_MemStorage =
       (StatusError 500 (Error ''Failed to generate response from Gemini API''),
        \<lparr>users = [], messages =
           [(''u1'', \<lparr>content = JString ''Hi'', role = ''user'', sessionId = JString ''s1'',
                     imageUrl = None, messageType = Some ''text'', id' = ''u1'',
                     timestamp = 1000\<rparr>)]\<rparr>)
   \<and> messages
         \<lparr>users = [], messages =
           [(''u1'', \<lparr>content = JString ''Hi'', role = ''user'', sessionId = JString ''s1'',
                     imageUrl = None, messageType = Some ''text'', id' = ''u1'',
                     timestamp = 1000\<rparr>)]\<rparr>
       = messages new_MemStorage @
           [(''u1'', \<lparr>content = JString ''Hi'', role = ''user'', sessionId = JString ''s1'',
                     imageUrl = None, messageType = Some ''text'', id' = ''u1'',
                     timestamp = 1000\<rparr>)]"
proof -
  let ?um = "\<lparr>content = JString ''Hi'', role = ''user'', sessionId = JString ''s1'',
              imageUrl = None, messageType = Some ''text'', id' = ''u1'', timestamp = 1000\<rparr>"
  let ?st1 = "\<lparr>users = [], messages = [(''u1'', ?um)]\<rparr>"
  have f1: "fresh ''u1'' new_MemStorage" and f2: "fresh ''u2'' new_MemStorage"
    by (simp_all add: fresh_def new_MemStorage_def)
  have ne: "''u1'' \<noteq> ''u2''" by simp
  have parse: "chatRequestSchema_parse hi_body = Inr (''Hi'', ''s1'')"
    by (simp add: chatRequestSchema_parse_def z_object_parse_def z_string_def get_prop_def
          hi_body_def)
  have created: "createMessage new_MemStorage ''u1'' 1000
                    \<lparr>content = JString ''Hi'', role = ''user'', sessionId = JString ''s1'',
                     imageUrl = None, messageType = None\<rparr> = (?um, ?st1)"
    by (simp add: createMessage_def Let_def or_null_def or_else_def truthy_def map_set_def
          new_MemStorage_def)
  have raised: "generateChatResponseWithHistory failing_env Map.empty
                  (conversationHistory ?st1 ''s1'') =
                Inl (Error ''Failed to generate response from Gemini API'')"
    by (simp add: handler_defs failing_env_def)
  note all = protocols_persist_none_user_or_both
               [OF f1 f2 ne, where e = failing_env and fs = Map.empty and ?t1.0 = 1000
                and ?t2.0 = 1001 and body = hi_body]
  note chat = all [THEN conjunct1]
  note accepted = chat [THEN conjunct2, rule_format, OF conjI [OF parse created]]
  from accepted have appended:
    "messages ?st1 = messages new_MemStorage @ [(''u1'', ?um)]"
    by (rule conjunct1)
  from accepted [THEN conjunct2, THEN conjunct2, THEN conjunct1, rule_format, OF raised]
  have failed: "chat_handler failing_env Map.empty (''u1'', 1000) (''u2'', 1001) hi_body
                  new_MemStorage =
       (StatusError 500 (Error ''Failed to generate response from Gemini API''), ?st1)" .
  from f1 f2 ne parse failed appended show ?thesis
    by (intro conjI)
qed

text \<open>
  C2: in the text-message protocol, when the model call raises after the user message has
  been stored (under an identifier new to the store), the handler answers with status 500
  and leaves the store as it was after that one \<^verbatim>\<open>createMessage\<close>: no assistant message
  is stored, the user message is there as created, and the session lists exactly one
  message more than before.
\<close>

theorem chat_model_failure_keeps_user_message:
  assumes parse: "chatRequestSchema_parse body = Inr (message, sid)"
    and created: "createMessage st u1 t1
                    \<lparr>content = JString message, role = ''user'', sessionId = JString sid,
                     imageUrl = None, messageType = None\<rparr> = (userMessage, st1)"
    and raised: "generateChatResponseWithHistory e fs (conversationHistory st1 sid) = Inl err"
    and fresh: "fresh u1 st"
  shows "chat_handler e fs (u1, t1) (u2, t2) body st = (StatusError 500 err, st1)
       \<and> messages st1 = messages st @ [(u1, userMessage)]
       \<and> userMessage = \<lparr>content = JString message, role = ''user'', sessionId = JString sid, imageUrl = None,
                         messageType = Some ''text'', id' = u1, timestamp = t1\<rparr>
       \<and> mset (getMessagesBySessionId st1 sid) =
           add_mset userMessage (mset (getMessagesBySessionId st sid))
       \<and> length (getMessagesBySessionId st1 sid) = length (getMessagesBySessionId st sid) + 1"
proof (intro conjI)
  show "chat_handler e fs (u1, t1) (u2, t2) body st = (StatusError 500 err, st1)"
    using parse created raised by (simp add: chat_handler_def)
  show appended: "messages st1 = messages st @ [(u1, userMessage)]"
    using createMessage_appends [OF created fresh] .
  show um: "userMessage = \<lparr>content = JString message, role = ''user'', sessionId = JString sid, imageUrl = None,
                         messageType = Some ''text'', id' = u1, timestamp = t1\<rparr>"
    using created
    by (auto simp: createMessage_def Let_def or_null_def or_else_def truthy_def)
  have sid: "sessionId userMessage = JString sid"
    by (simp add: um)
  have listed: "filter (\<lambda>m. sessionId m = JString sid) (map_values (messages st1)) =
        filter (\<lambda>m. sessionId m = JString sid) (map_values (messages st)) @ [userMessage]"
    using getMessages_append [OF appended, of sid] sid by simp
  then show "mset (getMessagesBySessionId st1 sid) =
           add_mset userMessage (mset (getMessagesBySessionId st sid))"
    by (simp add: getMessagesBySessionId_def array_sort_by_timestamp)
  from listed
  show "length (getMessagesBySessionId st1 sid) = length (getMessagesBySessionId st sid) + 1"
    by (simp add: getMessagesBySessionId_def array_sort_by_timestamp)
qed


theorem chat_model_failure_keeps_user_message_witness:
  "chatRequestSchema_parse hi_body = Inr (''Hi'', ''s1'')
   \<and> fresh ''u1'' new_MemStorage
   \<and> chat_handler failing_env Map.empty (''u1'', 1000) (''u2'', 1001) hi_body new_MemStorage =
       (StatusError 500 (Error ''Failed to generate response from Gemini API''),
        \<lparr>users = [], messages =
           [(''u1'', \<lparr>content = JString ''Hi'', role = ''user'', sessionId = JString ''s1'', imageUrl = None,
                     messageType = Some ''text'', id' = ''u1'', timestamp = 1000\<rparr>)]\<rparr>)
   \<and> length (getMessagesBySessionId
         \<lparr>users = [], messages =
           [(''u1'', \<lparr>content = JString ''Hi'', role = ''user'', sessionId = JString ''s1'', imageUrl = None,
                     messageType = Some ''text'', id' = ''u1'', timestamp = 1000\<rparr>)]\<rparr> ''s1'')
       = length (getMessagesBySessionId new_MemStorage ''s1'') + 1"
proof -
  let ?um = "\<lparr>content = JString ''Hi'', role = ''user'', sessionId = JString ''s1'', imageUrl = None,
              messageType = Some ''text'', id' = ''u1'', timestamp = 1000\<rparr>"
  let ?st1 = "\<lparr>users = [], messages = [(''u1'', ?um)]\<rparr>"
  have parse: "chatRequestSchema_parse hi_body = Inr (''Hi'', ''s1'')"
    by (simp add: chatRequestSchema_parse_def z_object_parse_def z_string_def get_prop_def
          hi_body_def)
  have created: "createMessage new_MemStorage ''u1'' 1000
                    \<lparr>content = JString ''Hi'', role = ''user'', sessionId = JString ''s1'',
                     imageUrl = None, messageType = None\<rparr> = (?um, ?st1)"
    by (simp add: createMessage_def Let_def or_null_def or_else_def truthy_def map_set_def
          new_MemStorage_def)
  have raised: "generateChatResponseWithHistory failing_env Map.empty
                  (conversationHistory ?st1 ''s1'') =
                Inl (Error ''Failed to generate response from Gemini API'')"
    by (simp add: handler_defs failing_env_def)
  have fresh: "fresh ''u1'' new_MemStorage"
    by (simp add: fresh_def new_MemStorage_def)
  from chat_model_failure_keeps_user_message [OF parse created raised fresh, of "''u2''" 1001]
  have "chat_handler failing_env Map.empty (''u1'', 1000) (''u2'', 1001) hi_body new_MemStorage =
       (StatusError 500 (Error ''Failed to generate response from Gemini API''), ?st1)"
    and "length (getMessagesBySessionId ?st1 ''s1'')
       = length (getMessagesBySessionId new_MemStorage ''s1'') + 1"
    by blast+
  with parse fresh show ?thesis by (intro conjI)
qed

lemma getMessages_empty:
  assumes "getMessagesBySessionId st sid = []"
  shows "filter (\<lambda>m. sessionId m = JString sid) (map_values (messages st)) = []"
proof -
  from assms have "length (sort_key timestamp
        (filter (\<lambda>m. sessionId m = JString sid) (map_values (messages st)))) = 0"
    by (simp add: getMessagesBySessionId_def array_sort_by_timestamp)
  then show ?thesis by (simp only: length_sort length_0_conv)
qed

text \<open>
  C7 as stated fails: the two messages get their timestamps from two readings of the clock,
  and the listing is ordered by timestamp. When the clock is set back between the readings
  (here from 1000 to 999) session \<^verbatim>\<open>s1\<close> lists the assistant message before the user
  message.
\<close>

theorem scenario_clock_set_back_lists_assistant_first:
  "getMessagesBySessionId
     (snd (chat_handler example_env Map.empty (''u1'', 1000) (''u2'', 999)
             (JObject [(''message'', JString ''Hi''), (''sessionId'', JString ''s1'')])
             new_MemStorage))
     ''s1''
   = [\<lparr>content = JString ''Hello!'', role = ''assistant'', sessionId = JString ''s1'',
       imageUrl = None, messageType = Some ''text'', id' = ''u2'', timestamp = 999\<rparr>,
      \<lparr>content = JString ''Hi'', role = ''user'', sessionId = JString ''s1'',
       imageUrl = None, messageType = Some ''text'', id' = ''u1'', timestamp = 1000\<rparr>]"
  by (simp add: handler_defs example_env_def)

text \<open>
  C7 (scenario A), as the code has it: the body \<^verbatim>\<open>{message: "Hi", sessionId: "s1"}\<close>
  arrives while session \<^verbatim>\<open>s1\<close> has no message, and the identifiers drawn are new. Then the
  history handed to the model service is the single user turn \<^verbatim>\<open>Hi\<close> and the contents
  sent to the hosted model are that one entry of role \<^verbatim>\<open>user\<close>. Once the model has
  answered, the response carries the user message and the assistant message, whose content
  is the reply text (the fixed apology when that text is empty); the store holds the two in
  that order after what it held; and the session lists exactly these two by timestamp: the
  user message first when the second reading of the clock is not before the first, the
  assistant message first otherwise.
\<close>

theorem scenario_first_message_of_a_session:
  assumes empty: "getMessagesBySessionId st ''s1'' = []"
    and fresh: "fresh u1 st" "fresh u2 st" "u1 \<noteq> u2"
    and replied: "generateContent e
                    \<lparr>model = ''gemini-2.5-flash'',
                     contents = ContentsList [Content ''user'' [TextPart (JString ''Hi'')]],
                     responseModalities = []\<rparr> = Inr response"
    and user: "userMessage =
                 \<lparr>content = JString ''Hi'', role = ''user'', sessionId = JString ''s1'',
                  imageUrl = None, messageType = Some ''text'', id' = u1, timestamp = t1\<rparr>"
    and assistant: "assistantMessage =
                 \<lparr>content = JString (or_else (response_text response)
                    ''I apologize, but I couldn't generate a response. Please try again.''),
                  role = ''assistant'', sessionId = JString ''s1'', imageUrl = None,
                  messageType = Some ''text'', id' = u2, timestamp = t2\<rparr>"
  shows "conversationHistory
           (snd (createMessage st u1 t1
                   \<lparr>content = JString ''Hi'', role = ''user'', sessionId = JString ''s1'',
                    imageUrl = None, messageType = None\<rparr>)) ''s1''
         = [\<lparr>turn_role = ''user'', turn_content = JString ''Hi'', turn_imageUrl = None\<rparr>]
       \<and> formatMessages e fs
           [\<lparr>turn_role = ''user'', turn_content = JString ''Hi'', turn_imageUrl = None\<rparr>]
         = Inr [Content ''user'' [TextPart (JString ''Hi'')]]
       \<and> fst (chat_handler e fs (u1, t1) (u2, t2)
                (JObject [(''message'', JString ''Hi''), (''sessionId'', JString ''s1'')]) st)
         = JsonPair userMessage assistantMessage
       \<and> messages (snd (chat_handler e fs (u1, t1) (u2, t2)
                (JObject [(''message'', JString ''Hi''), (''sessionId'', JString ''s1'')]) st))
         = messages st @ [(u1, userMessage), (u2, assistantMessage)]
       \<and> getMessagesBySessionId
           (snd (chat_handler e fs (u1, t1) (u2, t2)
                (JObject [(''message'', JString ''Hi''), (''sessionId'', JString ''s1'')]) st))
           ''s1''
         = (if t1 \<le> t2 then [userMessage, assistantMessage]
            else [assistantMessage, userMessage])"
proof -
  let ?body = "JObject [(''message'', JString ''Hi''), (''sessionId'', JString ''s1'')]"
  let ?reply = "or_else (response_text response)
                  ''I apologize, but I couldn't generate a response. Please try again.''"
  let ?ins1 = "\<lparr>content = JString ''Hi'', role = ''user'', sessionId = JString ''s1'',
                imageUrl = None, messageType = None\<rparr>"
  let ?ins2 = "\<lparr>content = JString ?reply, role = ''assistant'', sessionId = JString ''s1'',
                imageUrl = None, messageType = None\<rparr>"
  let ?turn = "\<lparr>turn_role = ''user'', turn_content = JString ''Hi'', turn_imageUrl = None\<rparr>"
  obtain st1 where c1: "createMessage st u1 t1 ?ins1 = (userMessage, st1)"
    by (simp add: createMessage_def Let_def or_null_def or_else_def truthy_def user)
  obtain st2 where c2: "createMessage st1 u2 t2 ?ins2 = (assistantMessage, st2)"
    by (simp add: createMessage_def Let_def or_null_def truthy_def assistant)
       (simp add: or_else_def)
  have m1: "messages st1 = messages st @ [(u1, userMessage)]"
    using createMessage_appends [OF c1 fresh(1)] .
  have m2: "messages st2 = messages st @ [(u1, userMessage), (u2, assistantMessage)]"
    using stored_two [OF c1 c2 fresh] by simp
  have none: "filter (\<lambda>m. sessionId m = JString ''s1'') (map_values (messages st)) = []"
    using getMessages_empty [OF empty] .
  have s1: "sessionId userMessage = JString ''s1''" "sessionId assistantMessage = JString ''s1''"
    and ts: "timestamp userMessage = t1" "timestamp assistantMessage = t2"
    by (simp_all add: user assistant)
  have l1: "getMessagesBySessionId st1 ''s1'' = [userMessage]"
    using getMessages_append [OF m1, of "''s1''"] none s1
    by (simp add: getMessagesBySessionId_def array_sort_def)
  have l2: "getMessagesBySessionId st2 ''s1'' =
              (if t1 \<le> t2 then [userMessage, assistantMessage]
               else [assistantMessage, userMessage])"
    using getMessages_append [OF m2, of "''s1''"] none s1 ts
    by (simp add: getMessagesBySessionId_def array_sort_def by_timestamp_def)
  have hist: "conversationHistory st1 ''s1'' = [?turn]"
    by (simp add: conversationHistory_def l1 user)
  have fmt: "formatMessages e fs [?turn] = Inr [Content ''user'' [TextPart (JString ''Hi'')]]"
    by (simp add: formatMessage_def external_role_def)
  have gen: "generateChatResponseWithHistory e fs (conversationHistory st1 ''s1'') = Inr ?reply"
    unfolding generateChatResponseWithHistory_def hist fmt
    by (simp add: replied)
  have parse: "chatRequestSchema_parse ?body = Inr (''Hi'', ''s1'')"
    by (simp add: chatRequestSchema_parse_def z_object_parse_def z_string_def get_prop_def)
  have run: "chat_handler e fs (u1, t1) (u2, t2) ?body st =
               (JsonPair userMessage assistantMessage, st2)"
    by (simp add: chat_handler_def parse c1 gen c2)
  from c1 have "snd (createMessage st u1 t1 ?ins1) = st1" by simp
  with hist fmt run m2 l2 show ?thesis by simp
qed

theorem scenario_first_message_of_a_session_witness:
  "getMessagesBySessionId new_MemStorage ''s1'' = []
   \<and> fresh ''u1'' new_MemStorage \<and> fresh ''u2'' new_MemStorage \<and> ''u1'' \<noteq> ''u2''
   \<and> generateContent example_env
         \<lparr>model = ''gemini-2.5-flash'',
          contents = ContentsList [Content ''user'' [TextPart (JString ''Hi'')]],
          responseModalities = []\<rparr>
       = Inr \<lparr>response_text = Some ''Hello!'', candidates = None\<rparr>
   \<and> getMessagesBySessionId
         (snd (chat_handler example_env Map.empty (''u1'', 1000) (''u2'', 1001)
                (JObject [(''message'', JString ''Hi''), (''sessionId'', JString ''s1'')])
                new_MemStorage))
         ''s1''
       = [\<lparr>content = JString ''Hi'', role = ''user'', sessionId = JString ''s1'',
           imageUrl = None, messageType = Some ''text'', id' = ''u1'', timestamp = 1000\<rparr>,
          \<lparr>content = JString ''Hello!'', role = ''assistant'', sessionId = JString ''s1'',
           imageUrl = None, messageType = Some ''text'', id' = ''u2'', timestamp = 1001\<rparr>]"
proof -
  have empty: "getMessagesBySessionId new_MemStorage ''s1'' = []"
    by (simp add: getMessagesBySessionId_def new_MemStorage_def map_values_def array_sort_def)
  have f1: "fresh ''u1'' new_MemStorage" and f2: "fresh ''u2'' new_MemStorage"
    by (simp_all add: fresh_def new_MemStorage_def)
  have ne: "''u1'' \<noteq> ''u2''" by simp
  have replied: "generateContent example_env
         \<lparr>model = ''gemini-2.5-flash'',
          contents = ContentsList [Content ''user'' [TextPart (JString ''Hi'')]],
          responseModalities = []\<rparr>
       = Inr \<lparr>response_text = Some ''Hello!'', candidates = None\<rparr>"
    by (simp add: example_env_def)
  have reply: "or_else (response_text \<lparr>response_text = Some ''Hello!'', candidates = None\<rparr>)
                 ''I apologize, but I couldn't generate a response. Please try again.''
               = ''Hello!''"
    by (simp add: or_else_def)
  note inst = scenario_first_message_of_a_session
         [OF empty f1 f2 ne replied refl refl, where fs = Map.empty and ?t1.0 = 1000
          and ?t2.0 = 1001]
  from inst have "getMessagesBySessionId
         (snd (chat_handler example_env Map.empty (''u1'', 1000) (''u2'', 1001)
                (JObject [(''message'', JString ''Hi''), (''sessionId'', JString ''s1'')])
                new_MemStorage))
         ''s1''
       = (if (1000 :: int) \<le> 1001
          then [\<lparr>content = JString ''Hi'', role = ''user'', sessionId = JString ''s1'',
                  imageUrl = None, messageType = Some ''text'', id' = ''u1'',
                  timestamp = 1000\<rparr>,
                \<lparr>content = JString (or_else
                    (response_text \<lparr>response_text = Some ''Hello!'', candidates = None\<rparr>)
                    ''I apologize, but I couldn't generate a response. Please try again.''),
                  role = ''assistant'', sessionId = JString ''s1'', imageUrl = None,
                  messageType = Some ''text'', id' = ''u2'', timestamp = 1001\<rparr>]
          else [\<lparr>content = JString (or_else
                    (response_text \<lparr>response_text = Some ''Hello!'', candidates = None\<rparr>)
                    ''I apologize, but I couldn't generate a response. Please try again.''),
                  role = ''assistant'', sessionId = JString ''s1'', imageUrl = None,
                  messageType = Some ''text'', id' = ''u2'', timestamp = 1001\<rparr>,
                \<lparr>content = JString ''Hi'', role = ''user'', sessionId = JString ''s1'',
                  imageUrl = None, messageType = Some ''text'', id' = ''u1'',
                  timestamp = 1000\<rparr>])"
    by blast
  then have listed: "getMessagesBySessionId
         (snd (chat_handler example_env Map.empty (''u1'', 1000) (''u2'', 1001)
                (JObject [(''message'', JString ''Hi''), (''sessionId'', JString ''s1'')])
                new_MemStorage))
         ''s1''
       = [\<lparr>content = JString ''Hi'', role = ''user'', sessionId = JString ''s1'',
           imageUrl = None, messageType = Some ''text'', id' = ''u1'', timestamp = 1000\<rparr>,
          \<lparr>content = JString ''Hello!'', role = ''assistant'', sessionId = JString ''s1'',
           imageUrl = None, messageType = Some ''text'', id' = ''u2'', timestamp = 1001\<rparr>]"
    by (simp only: reply) simp
  from empty f1 f2 ne replied listed show ?thesis by (intro conjI)
qed

text \<open>
  C8 (scenario B): when an image-generation invocation succeeds, with identifiers new to
  the store, the body was valid, the store has gained the user message and then the
  assistant message, the content of the user message is \<^verbatim>\<open>Generate an image: \<close> followed
  by the prompt (so the prompt occurs in it), and the assistant message has type
  \<^verbatim>\<open>image_generation\<close> and, as \<^verbatim>\<open>imageUrl\<close>, the non-empty path of the generated file.
\<close>

theorem successful_image_generation_messages:
  assumes success: "generate_image_handler e fs (u1, t1) now (u2, t2) body st =
                      (JsonPair userMessage assistantMessage, st', fs')"
    and fresh: "fresh u1 st" "fresh u2 st" "u1 \<noteq> u2"
  shows "\<exists>prompt sid.
           imageGenerationSchema_parse body = Inr (prompt, sid)
         \<and> messages st' = messages st @ [(u1, userMessage), (u2, assistantMessage)]
         \<and> role userMessage = ''user'' \<and> sessionId userMessage = JString sid
         \<and> content userMessage = JString (''Generate an image: '' @ prompt)
         \<and> sublist prompt (''Generate an image: '' @ prompt)
         \<and> role assistantMessage = ''assistant'' \<and> sessionId assistantMessage = JString sid
         \<and> messageType assistantMessage = Some ''image_generation''
         \<and> imageUrl assistantMessage = Some (''uploads/'' @ imageFilename now)
         \<and> ''uploads/'' @ imageFilename now \<noteq> []"
  using generate_image_handler_cases [OF success]
proof (elim disjE exE conjE)
  fix err
  assume "JsonPair userMessage assistantMessage = StatusError 500 err"
  then show ?thesis by simp
next
  fix prompt sid um err
  assume "JsonPair userMessage assistantMessage = StatusError 500 err"
  then show ?thesis by simp
next
  fix prompt sid um st1 am
  assume parse: "imageGenerationSchema_parse body = Inr (prompt, sid)"
    and c1: "createMessage st u1 t1
        \<lparr>content = JString (''Generate an image: '' @ prompt), role = ''user'',
         sessionId = JString sid, imageUrl = None, messageType = Some ''text''\<rparr> = (um, st1)"
    and c2: "createMessage st1 u2 t2
        \<lparr>content = JString (''I've generated an image based on your prompt: ''
                     @ [CHR 0x22] @ prompt @ [CHR 0x22]),
         role = ''assistant'', sessionId = JString sid,
         imageUrl = Some (path_join [''uploads'', imageFilename now]),
         messageType = Some ''image_generation''\<rparr> = (am, st')"
    and r: "JsonPair userMessage assistantMessage = JsonPair um am"
  from r have um: "um = userMessage" and am: "am = assistantMessage" by simp_all
  note c1 = c1 [unfolded um] and c2 = c2 [unfolded am]
  have stored: "messages st' = messages st @ [(u1, userMessage), (u2, assistantMessage)]"
    using stored_two [OF c1 c2 fresh] by simp
  have content: "content userMessage = JString (''Generate an image: '' @ prompt)"
    using createMessage_fields(1) [OF c1] by simp
  have "sublist prompt (''Generate an image: '' @ prompt @ [])"
    by (rule sublist_appendI)
  then have occurs: "sublist prompt (''Generate an image: '' @ prompt)" by simp
  have url: "imageUrl assistantMessage = Some (''uploads/'' @ imageFilename now)"
    using createMessage_fields(4) [OF c2]
    by (simp add: imagePath_generated or_null_def truthy_def)
  have type: "messageType assistantMessage = Some ''image_generation''"
    using createMessage_fields(5) [OF c2] by (simp add: or_else_def)
  from parse stored content occurs url type
       createMessage_fields(2,3) [OF c1] createMessage_fields(2,3) [OF c2]
  show ?thesis by simp
qed


lemmas generate_defs =
  generate_image_handler_def imageGenerationSchema_parse_def z_object_parse_def z_string_def
  get_prop_def createMessage_def Let_def or_null_def or_else_def truthy_def map_set_def
  new_MemStorage_def generateImage_def writeFileSync_def dirname_def image_env_def
  uploads_fs_def

lemma filename_example: "imageFilename 1700000000000 = ''generated_1700000000000.jpg''"
  by (simp add: imageFilename_def number_toString_def decimal_digits.simps digit_def)

lemma path_example:
  "path_join [''uploads'', imageFilename 1700000000000] = ''uploads/generated_1700000000000.jpg''"
  using imagePath_generated [of 1700000000000] by (simp add: filename_example)

lemma cube_generation:
  "generate_image_handler image_env uploads_fs (''u1'', 1700000000000) 1700000000000
       (''u2'', 1700000000900) cube_body new_MemStorage =
     (JsonPair (generated_user ''u1'' ''s2'' ''a red cube'' 1700000000000)
               (generated_assistant ''u2'' ''s2'' ''a red cube'' 1700000000900),
      \<lparr>users = [], messages =
         [(''u1'', generated_user ''u1'' ''s2'' ''a red cube'' 1700000000000),
          (''u2'', generated_assistant ''u2'' ''s2'' ''a red cube'' 1700000000900)]\<rparr>,
      [''uploads'' \<mapsto> Directory,
       ''uploads/generated_1700000000000.jpg'' \<mapsto> File [0, 0, 0, 0, 0, 0, 0, 0, 0, 0]])"
  by (simp add: generate_defs cube_body_def path_example generated_user_def
        generated_assistant_def)

lemma sphere_generation:
  "generate_image_handler image_env uploads_fs (''u3'', 1700000000000) 1700000000000
       (''u4'', 1700000000950) sphere_body new_MemStorage =
     (JsonPair (generated_user ''u3'' ''s3'' ''a blue sphere'' 1700000000000)
               (generated_assistant ''u4'' ''s3'' ''a blue sphere'' 1700000000950),
      \<lparr>users = [], messages =
         [(''u3'', generated_user ''u3'' ''s3'' ''a blue sphere'' 1700000000000),
          (''u4'', generated_assistant ''u4'' ''s3'' ''a blue sphere'' 1700000000950)]\<rparr>,
      [''uploads'' \<mapsto> Directory,
       ''uploads/generated_1700000000000.jpg'' \<mapsto>
         File [0, 0, 0, 0, 0, 0, 0, 0, 0, 0, 0, 0, 0]])"
  by (simp add: generate_defs sphere_body_def path_example generated_user_def
        generated_assistant_def)

theorem successful_image_generation_messages_witness:
  "fresh ''u1'' new_MemStorage \<and> fresh ''u2'' new_MemStorage \<and> ''u1'' \<noteq> ''u2''
   \<and> fst (generate_image_handler image_env uploads_fs (''u1'', 1700000000000) 1700000000000
             (''u2'', 1700000000900) cube_body new_MemStorage) =
       JsonPair (generated_user ''u1'' ''s2'' ''a red cube'' 1700000000000)
                (generated_assistant ''u2'' ''s2'' ''a red cube'' 1700000000900)
   \<and> content (generated_user ''u1'' ''s2'' ''a red cube'' 1700000000000) =
       JString (''Generate an image: '' @ ''a red cube'')
   \<and> sublist ''a red cube'' (''Generate an image: '' @ ''a red cube'')
   \<and> messageType (generated_assistant ''u2'' ''s2'' ''a red cube'' 1700000000900) =
       Some ''image_generation''
   \<and> imageUrl (generated_assistant ''u2'' ''s2'' ''a red cube'' 1700000000900) =
       Some (''uploads/'' @ imageFilename 1700000000000)"
proof -
  have f1: "fresh ''u1'' new_MemStorage" and f2: "fresh ''u2'' new_MemStorage"
    by (simp_all add: fresh_def new_MemStorage_def)
  have ne: "''u1'' \<noteq> ''u2''" by simp
  have parse: "imageGenerationSchema_parse cube_body = Inr (''a red cube'', ''s2'')"
    by (simp add: imageGenerationSchema_parse_def z_object_parse_def z_string_def get_prop_def
          cube_body_def)
  from successful_image_generation_messages [OF cube_generation f1 f2 ne]
  obtain prompt sid where
    p: "imageGenerationSchema_parse cube_body = Inr (prompt, sid)"
    and content: "content (generated_user ''u1'' ''s2'' ''a red cube'' 1700000000000) =
                    JString (''Generate an image: '' @ prompt)"
    and occurs: "sublist prompt (''Generate an image: '' @ prompt)"
    and type: "messageType (generated_assistant ''u2'' ''s2'' ''a red cube'' 1700000000900) =
                 Some ''image_generation''"
    and url: "imageUrl (generated_assistant ''u2'' ''s2'' ''a red cube'' 1700000000900) =
                 Some (''uploads/'' @ imageFilename 1700000000000)"
    by blast
  from p parse have prompt: "prompt = ''a red cube''" by simp
  from content prompt
  have content': "content (generated_user ''u1'' ''s2'' ''a red cube'' 1700000000000) =
       JString (''Generate an image: '' @ ''a red cube'')"
    by (simp only:)
  from occurs prompt
  have occurs': "sublist ''a red cube'' (''Generate an image: '' @ ''a red cube'')"
    by (simp only:)
  have run: "fst (generate_image_handler image_env uploads_fs (''u1'', 1700000000000)
                    1700000000000 (''u2'', 1700000000900) cube_body new_MemStorage) =
       JsonPair (generated_user ''u1'' ''s2'' ''a red cube'' 1700000000000)
                (generated_assistant ''u2'' ''s2'' ''a red cube'' 1700000000900)"
    by (simp only: cube_generation fst_conv)
  from f1 f2 ne run content' occurs' type url show ?thesis by (intro conjI)
qed

text \<open>
  Without the directory \<^verbatim>\<open>uploads\<close> the generated image cannot be written: the
  invocation fails after the user message has been stored.
\<close>

lemma generation_without_uploads_directory:
  "generate_image_handler image_env Map.empty (''u1'', 1700000000000) 1700000000000
       (''u2'', 1700000000900) cube_body new_MemStorage =
     (StatusError 500 (Error ''Failed to generate image''),
      \<lparr>users = [], messages =
         [(''u1'', generated_user ''u1'' ''s2'' ''a red cube'' 1700000000000)]\<rparr>,
      Map.empty)"
  by (simp add: generate_defs cube_body_def path_example generated_user_def)

text \<open>
  An upload whose \<^verbatim>\<open>sessionId\<close> field is sent twice reaches the handler as an array, which
  is truthy and is stored as it is in both messages.
\<close>

lemma upload_repeated_sessionId_field:
  "upload_image_route example_env example_fs (''u1'', 10) (''u2'', 11) repeated_field_request
       new_MemStorage =
     (JsonPair
        \<lparr>content = JString ''I've uploaded an image for you to analyze.'', role = ''user'',
         sessionId = JArray [JString ''s1'', JString ''s2''],
         imageUrl = Some ''uploads/cat'', messageType = Some ''image'', id' = ''u1'',
         timestamp = 10\<rparr>
        \<lparr>content = JString ''Hello!'', role = ''assistant'',
         sessionId = JArray [JString ''s1'', JString ''s2''],
         imageUrl = None, messageType = Some ''text'', id' = ''u2'', timestamp = 11\<rparr>,
      \<lparr>users = [], messages =
        [(''u1'', \<lparr>content = JString ''I've uploaded an image for you to analyze.'',
           role = ''user'', sessionId = JArray [JString ''s1'', JString ''s2''],
           imageUrl = Some ''uploads/cat'', messageType = Some ''image'', id' = ''u1'',
           timestamp = 10\<rparr>),
         (''u2'', \<lparr>content = JString ''Hello!'', role = ''assistant'',
           sessionId = JArray [JString ''s1'', JString ''s2''],
           imageUrl = None, messageType = Some ''text'', id' = ''u2'', timestamp = 11\<rparr>)]\<rparr>)"
  by (simp add: upload_image_route_def upload_single_def allowedTypes_def
        upload_image_handler_def body_sessionId_def body_message_def get_prop_def
        js_truthy_def js_or_def createMessage_def Let_def or_null_def or_else_def truthy_def
        map_set_def new_MemStorage_def analyzeImage_def readFileSync_def example_fs_def
        example_env_def repeated_field_request_def)

text \<open>
  C9 fails on the code: the name of the generated file is a function of the clock reading
  alone. Two invocations, for different prompts and sessions, that read the same
  millisecond both succeed, both reference \<^verbatim>\<open>uploads/generated_1700000000000.jpg\<close>, and
  each writes its own image there.
\<close>

theorem generated_images_share_a_path:
  "generate_image_handler image_env uploads_fs (''u1'', 1700000000000) 1700000000000
       (''u2'', 1700000000900) cube_body new_MemStorage =
     (JsonPair (generated_user ''u1'' ''s2'' ''a red cube'' 1700000000000)
               (generated_assistant ''u2'' ''s2'' ''a red cube'' 1700000000900),
      \<lparr>users = [], messages =
         [(''u1'', generated_user ''u1'' ''s2'' ''a red cube'' 1700000000000),
          (''u2'', generated_assistant ''u2'' ''s2'' ''a red cube'' 1700000000900)]\<rparr>,
      [''uploads'' \<mapsto> Directory,
       ''uploads/generated_1700000000000.jpg'' \<mapsto> File [0, 0, 0, 0, 0, 0, 0, 0, 0, 0]])
   \<and> generate_image_handler image_env uploads_fs (''u3'', 1700000000000) 1700000000000
       (''u4'', 1700000000950) sphere_body new_MemStorage =
     (JsonPair (generated_user ''u3'' ''s3'' ''a blue sphere'' 1700000000000)
               (generated_assistant ''u4'' ''s3'' ''a blue sphere'' 1700000000950),
      \<lparr>users = [], messages =
         [(''u3'', generated_user ''u3'' ''s3'' ''a blue sphere'' 1700000000000),
          (''u4'', generated_assistant ''u4'' ''s3'' ''a blue sphere'' 1700000000950)]\<rparr>,
      [''uploads'' \<mapsto> Directory,
       ''uploads/generated_1700000000000.jpg'' \<mapsto>
         File [0, 0, 0, 0, 0, 0, 0, 0, 0, 0, 0, 0, 0]])
   \<and> imageUrl (generated_assistant ''u2'' ''s2'' ''a red cube'' 1700000000900) =
       imageUrl (generated_assistant ''u4'' ''s3'' ''a blue sphere'' 1700000000950)"
  using cube_generation sphere_generation
  by (simp add: generated_assistant_def)

text \<open>
  C6 fails on the code: the handler joins the decoded parameter to \<^verbatim>\<open>uploads\<close> with no
  check. For the request \<^verbatim>\<open>GET /api/images/..%2F..%2Fetc%2Fpasswd\<close> in a process running
  in \<^verbatim>\<open>/app\<close> the parameter is \<^verbatim>\<open>../../etc/passwd\<close>, the joined path is
  \<^verbatim>\<open>../etc/passwd\<close>, and the file sent is \<^verbatim>\<open>/etc/passwd\<close>, outside \<^verbatim>\<open>/app/uploads\<close>.
\<close>

theorem images_handler_leaves_uploads:
  "path_join [''uploads'', ''../../etc/passwd''] = ''../etc/passwd''
   \<and> images_handler ''/app'' [''../etc/passwd'' \<mapsto> File [114, 111, 111, 116]]
         ''../../etc/passwd'' = SendFile ''/etc/passwd''
   \<and> \<not> within_dir ''/app'' ''uploads'' ''/etc/passwd''"
  by (simp add: images_handler_def path_join_def path_normalize_def isAbsolute_def
        path_resolve_def existsSync_def within_dir_def Let_def)


end
